theory Spec2Isabelle
  imports Main "HOL-Library.Word"
begin

section \<open>Go values shared by the packages\<close>

text \<open>
  A Go \<^verbatim>\<open>error\<close> is an interface value; \<^verbatim>\<open>nil\<close> is modelled by \<open>None\<close> of
  \<open>error option\<close>. The code compares an error with the sentinel \<^verbatim>\<open>io.EOF\<close> and otherwise
  only formats errors with \<^verbatim>\<open>%v\<close>, \<^verbatim>\<open>%w\<close> or \<^verbatim>\<open>%s\<close>, so an error is the sentinel or
  an error with a message text. \<^verbatim>\<open>errors.New(s)\<close> and \<^verbatim>\<open>fmt.Errorf(...)\<close> both build the
  second kind, with the formatted text. Byte slices and strings are lists of 8-bit
  characters.
\<close>

type_synonym bytes = string

datatype error = io_EOF | errors_New string

fun Error_text :: "error \<Rightarrow> string" where
  "Error_text io_EOF = ''EOF''"
| "Error_text (errors_New s) = s"

section \<open>Package bios\_settings\_set (plugins/teststeps/hsi/main.go, second part)\<close>

subsection \<open>Constants and data\<close>

definition supportedProto :: string where
  "supportedProto = ''ssh''"

definition privileged :: string where
  "privileged = ''sudo''"

definition cmd :: string where
  "cmd = ''wmi''"

definition jsonFlag :: string where
  "jsonFlag = ''--json''"

text \<open>
  \<^verbatim>\<open>type Error struct { Msg string `json:"error"` }\<close>
\<close>

record Error =
  Msg :: string

text \<open>
  The declarations of \<^verbatim>\<open>inputStepParams\<close> and of this package's \<^verbatim>\<open>TestStep\<close>
  are in another file of the package; the fields below are the ones \<^verbatim>\<open>Run\<close> and
  \<^verbatim>\<open>runSet\<close> read (\<^verbatim>\<open>params.Transport.Proto\<close>, \<^verbatim>\<open>params.Parameter.Password\<close>,
  \<^verbatim>\<open>r.ts.Options.Timeout\<close>, ...).
\<close>

record transport_Parameters =
  Proto :: string
  Options :: bytes

record parameter =
  ToolPath :: string
  Password :: string
  KeyPath :: string
  Option :: string
  Value :: string
  ShallFail :: bool

record inputStepParams =
  Transport :: transport_Parameters
  Parameter :: parameter

record TestStep =
  ts_inputStepParams :: inputStepParams
  ts_Timeout :: int

subsection \<open>Events (events.go)\<close>

definition EventStdout :: string where
  "EventStdout = ''Stdout''"

definition EventStderr :: string where
  "EventStderr = ''Stderr''"

definition Events :: "string list" where
  "Events = [EventStdout, EventStderr]"

text \<open>\<^verbatim>\<open>type eventPayload struct { Msg string }\<close>\<close>

record eventPayload =
  payload_Msg :: string

text \<open>
  \<^verbatim>\<open>testevent.Data\<close>, as \<^verbatim>\<open>emitEvent\<close> fills it: the event name, the target and the
  marshalled payload.
\<close>

record 'tgt testevent_Data =
  EventName :: string
  Target :: 'tgt
  Payload :: bytes

subsection \<open>The collaborators of the runner\<close>

text \<open>
  A stream handed out by \<^verbatim>\<open>StdoutPipe\<close> or \<^verbatim>\<open>StderrPipe\<close> is read once, by
  \<^verbatim>\<open>io.Copy(buf, r)\<close>: the model of a reader is what that copy leaves, the bytes written
  to the buffer and the error it returns (\<open>None\<close> when the stream ended cleanly).
\<close>

type_synonym Reader = "bytes \<times> error option"

text \<open>
  A process handle of the transport: what each of its four methods returns. Every method
  is called at most once in a run, in a fixed order.
\<close>

record 'ctx Process =
  StdoutPipe :: "error + Reader"
  StderrPipe :: "error + Reader"
  Start :: "'ctx \<Rightarrow> error option"
  Wait :: "'ctx \<Rightarrow> error option"

record 'ctx transport_Transport =
  NewProcess :: "'ctx \<Rightarrow> string \<Rightarrow> string list \<Rightarrow> error + 'ctx Process"

text \<open>
  Everything \<^verbatim>\<open>Run\<close> calls outside this package: the context's \<^verbatim>\<open>WithTimeout\<close>, the
  target's string form, the parameter expander, the transport factory, the JSON codec
  of the standard library at the two types used, and the event emitter.
\<close>

record ('ctx, 'tgt) world =
  WithTimeout :: "'ctx \<Rightarrow> int \<Rightarrow> 'ctx"
  Target_String :: "'tgt \<Rightarrow> string"
  ExpandObject :: "'tgt \<Rightarrow> inputStepParams \<Rightarrow> error + inputStepParams"
  NewTransport :: "'tgt \<Rightarrow> string \<Rightarrow> bytes \<Rightarrow> error + 'ctx transport_Transport"
  json_Unmarshal :: "bytes \<Rightarrow> error + Error"
  json_Marshal :: "eventPayload \<Rightarrow> error + bytes"
  Emit :: "'ctx \<Rightarrow> 'tgt testevent_Data \<Rightarrow> error option"

text \<open>
  What a run does to the outside, in order: log lines, calls to the collaborators, and
  each event handed to the emitter with the emitter's answer.
\<close>

datatype 'tgt action =
    Infof string
  | Printf string
  | WithTimeout_call int
  | cancel_call
  | ExpandObject_call
  | NewTransport_call string bytes
  | NewProcess_call string "string list"
  | StdoutPipe_call
  | StderrPipe_call
  | Start_call
  | Wait_call
  | Emit_call "'tgt testevent_Data" "error option"

fun emitted :: "'tgt action list \<Rightarrow> 'tgt testevent_Data list" where
  "emitted [] = []"
| "emitted (Emit_call d None # t) = d # emitted t"
| "emitted (a # t) = emitted t"

fun attempted :: "'tgt action list \<Rightarrow> 'tgt testevent_Data list" where
  "attempted [] = []"
| "attempted (Emit_call d r # t) = d # attempted t"
| "attempted (a # t) = attempted t"

fun is_remote :: "'tgt action \<Rightarrow> bool" where
  "is_remote (NewTransport_call p opts) = True"
| "is_remote (NewProcess_call p argv) = True"
| "is_remote StdoutPipe_call = True"
| "is_remote StderrPipe_call = True"
| "is_remote Start_call = True"
| "is_remote Wait_call = True"
| "is_remote a = False"

definition remote_calls :: "'tgt action list \<Rightarrow> 'tgt action list" where
  "remote_calls t = filter is_remote t"

subsection \<open>The output parser\<close>

text \<open>
  \<^verbatim>\<open>parseSetOutput(stderr []byte, fail bool) error\<close>.
  \<^verbatim>\<open>json.Unmarshal(stderr, &err)\<close> belongs to the standard library; the model takes it
  as the parameter \<open>unmarshal\<close>: the result of decoding the bytes into a zero-valued
  \<^verbatim>\<open>Error\<close> (the source declares \<^verbatim>\<open>err := Error{}\<close> anew in every call), \<open>Inl\<close> when the
  decoder returns an error. Empty input is not decoded, the struct stays zero.
\<close>

definition parseSetOutput :: "(bytes \<Rightarrow> error + Error) \<Rightarrow> bytes \<Rightarrow> bool \<Rightarrow> error option" where
  "parseSetOutput unmarshal stderr fail =
     (case (if length stderr \<noteq> 0 then unmarshal stderr else Inr \<lparr>Msg = ''''\<rparr>) of
        Inl e \<Rightarrow> Some (errors_New (''failed to unmarshal stderr: '' @ Error_text e))
      | Inr err \<Rightarrow>
          (if Msg err \<noteq> '''' then
             (if Msg err = ''BIOS options are locked, needs unlocking.'' \<and> fail then None
              else if Msg err \<noteq> '''' then Some (errors_New (Msg err))
              else None)
           else None))"

text \<open>Two calls in sequence on the same bytes and flag, as a caller would make them.\<close>

definition parseSetOutput_twice ::
  "(bytes \<Rightarrow> error + Error) \<Rightarrow> bytes \<Rightarrow> bool \<Rightarrow> error option \<times> error option" where
  "parseSetOutput_twice unmarshal stderr fail =
     (let first = parseSetOutput unmarshal stderr fail;
          second = parseSetOutput unmarshal stderr fail
      in (first, second))"

subsection \<open>Draining the streams\<close>

text \<open>
  \<^verbatim>\<open>readBuffer\<close>: an error of the copy other than \<^verbatim>\<open>io.EOF\<close> is returned with a
  \<^verbatim>\<open>nil\<close> slice (the bytes copied so far are dropped); otherwise the buffer's bytes.
\<close>

definition readBuffer :: "Reader \<Rightarrow> bytes \<times> error option" where
  "readBuffer r =
     (case r of (buf, err) \<Rightarrow>
        (case err of
           Some e \<Rightarrow> (if e \<noteq> io_EOF then ([], Some e) else (buf, None))
         | None \<Rightarrow> (buf, None)))"

text \<open>
  \<^verbatim>\<open>getOutputFromReader\<close> returns the two slices; the second component of the model is
  what it prints with \<^verbatim>\<open>fmt.Printf\<close>.
\<close>

definition getOutputFromReader :: "Reader \<Rightarrow> Reader \<Rightarrow> (bytes \<times> bytes) \<times> string list" where
  "getOutputFromReader stdout stderr =
     (case readBuffer stdout of (outBuffer, err1) \<Rightarrow>
      case readBuffer stderr of (errBuffer, err2) \<Rightarrow>
        ((outBuffer, errBuffer),
         (case err1 of
            Some e \<Rightarrow> [''failed to read from Stdout buffer: '' @ Error_text e @ [CHR 0x0A]]
          | None \<Rightarrow> [])
         @ (case err2 of
            Some e \<Rightarrow> [''failed to read from Stderr buffer: '' @ Error_text e @ [CHR 0x0A]]
          | None \<Rightarrow> [])))"

subsection \<open>Emitting an event\<close>

text \<open>
  \<^verbatim>\<open>emitEvent(ctx, name, payload, tgt, ev)\<close>, with the payload type the runner passes.
  The helper is read from events.go of package hwaas; the runner calls it with the same
  name, arguments and event names.
\<close>

definition emitEvent ::
  "('ctx, 'tgt) world \<Rightarrow> 'ctx \<Rightarrow> string \<Rightarrow> eventPayload \<Rightarrow> 'tgt \<Rightarrow> error option \<times> 'tgt action list" where
  "emitEvent w ctx name payload tgt =
     (case json_Marshal w payload of
        Inl err \<Rightarrow>
          (Some (errors_New (''cannot marshal payload for event '' @ [CHR 0x27] @ name @ [CHR 0x27]
                             @ '': '' @ Error_text err)), [])
      | Inr payloadData \<Rightarrow>
          (let data = \<lparr>EventName = name, Target = tgt, Payload = payloadData\<rparr> in
           case Emit w ctx data of
             Some err \<Rightarrow>
               (Some (errors_New (''cannot emit event EventCmdStart: '' @ Error_text err)),
                [Emit_call data (Some err)])
           | None \<Rightarrow> (None, [Emit_call data None])))"

subsection \<open>The runner\<close>

text \<open>The argument vector \<^verbatim>\<open>runSet\<close> builds for the remote tool.\<close>

definition authString :: "inputStepParams \<Rightarrow> string" where
  "authString params =
     (if Password (Parameter params) \<noteq> '''' then ''--password='' @ Password (Parameter params)
      else if KeyPath (Parameter params) \<noteq> '''' then ''--private-key='' @ KeyPath (Parameter params)
      else '''')"

definition argv :: "inputStepParams \<Rightarrow> string list" where
  "argv params =
     [ToolPath (Parameter params), cmd, ''set'',
      ''--option='' @ Option (Parameter params),
      ''--value='' @ Value (Parameter params),
      authString params, jsonFlag]"

text \<open>
  \<^verbatim>\<open>runSet\<close> returns the Go pair \<^verbatim>\<open>(outcome, error)\<close>, each component \<^verbatim>\<open>nil\<close> or an
  error, and here also the trace of what it did.
\<close>

definition runSet ::
  "('ctx, 'tgt) world \<Rightarrow> 'ctx \<Rightarrow> 'tgt \<Rightarrow> 'ctx transport_Transport \<Rightarrow> inputStepParams
     \<Rightarrow> (error option \<times> error option) \<times> 'tgt action list" where
  "runSet w ctx target transport params =
     (let t0 = [NewProcess_call privileged (argv params)] in
      case NewProcess transport ctx privileged (argv params) of
        Inl err \<Rightarrow>
          ((None, Some (errors_New (''failed to create process: '' @ Error_text err))), t0)
      | Inr proc \<Rightarrow>
         (case StdoutPipe proc of
            Inl err \<Rightarrow>
              ((None, Some (errors_New (''failed to pipe stdout: '' @ Error_text err))),
               t0 @ [StdoutPipe_call])
          | Inr stdoutPipe \<Rightarrow>
             (case StderrPipe proc of
                Inl err \<Rightarrow>
                  ((None, Some (errors_New (''failed to pipe stderr: '' @ Error_text err))),
                   t0 @ [StdoutPipe_call, StderrPipe_call])
              | Inr stderrPipe \<Rightarrow>
                 (let started = Start proc ctx;
                      outcome = (if started = None then Wait proc ctx else started);
                      t1 = t0 @ [StdoutPipe_call, StderrPipe_call, Start_call]
                             @ (if started = None then [Wait_call] else []);
                      out = getOutputFromReader stdoutPipe stderrPipe;
                      stdout = fst (fst out);
                      stderr = snd (fst out);
                      t2 = t1 @ map Printf (snd out)
                  in case parseSetOutput (json_Unmarshal w) stderr (ShallFail (Parameter params)) of
                       Some err \<Rightarrow> ((None, Some err), t2)
                     | None \<Rightarrow>
                        (case emitEvent w ctx EventStdout \<lparr>payload_Msg = stdout\<rparr> target of
                           (Some err, e1) \<Rightarrow>
                             ((None, Some (errors_New (''cannot emit event: '' @ Error_text err))),
                              t2 @ e1)
                         | (None, e1) \<Rightarrow>
                            (case emitEvent w ctx EventStderr \<lparr>payload_Msg = stderr\<rparr> target of
                               (Some err, e2) \<Rightarrow>
                                 ((None, Some (errors_New (''cannot emit event: '' @ Error_text err))),
                                  t2 @ e1 @ e2)
                             | (None, e2) \<Rightarrow> ((outcome, None), t2 @ e1 @ e2)))))))"

text \<open>
  \<^verbatim>\<open>TargetRunner.Run\<close>. The deferred \<^verbatim>\<open>cancel\<close> runs on every return when a timeout is
  set, so it ends the trace.
\<close>

definition Run ::
  "('ctx, 'tgt) world \<Rightarrow> TestStep \<Rightarrow> 'ctx \<Rightarrow> 'tgt \<Rightarrow> error option \<times> 'tgt action list" where
  "Run w ts ctx0 target =
     (let timeout = ts_Timeout ts;
          ctx = (if timeout \<noteq> 0 then WithTimeout w ctx0 timeout else ctx0);
          t0 = [Infof (''Executing on target '' @ Target_String w target)]
               @ (if timeout \<noteq> 0 then [WithTimeout_call timeout] else [])
               @ [ExpandObject_call];
          deferred = (if timeout \<noteq> 0 then [cancel_call] else [])
      in case ExpandObject w target (ts_inputStepParams ts) of
           Inl err \<Rightarrow> (Some err, t0 @ deferred)
         | Inr params \<Rightarrow>
            (if Proto (Transport params) \<noteq> supportedProto then
               (Some (errors_New ''only \"ssh\" is supported as protocol in this teststep''),
                t0 @ deferred)
             else if Password (Parameter params) = '''' \<and> KeyPath (Parameter params) = '''' then
               (Some (errors_New ''password or certificate file must be set''), t0 @ deferred)
             else if Option (Parameter params) = '''' \<or> Value (Parameter params) = '''' then
               (Some (errors_New ''bios option and value must be set''), t0 @ deferred)
             else
               (let t1 = t0 @ [NewTransport_call (Proto (Transport params)) (Options (Transport params))] in
                case NewTransport w target (Proto (Transport params)) (Options (Transport params)) of
                  Inl err \<Rightarrow>
                    (Some (errors_New (''failed to create transport: '' @ Error_text err)),
                     t1 @ deferred)
                | Inr transportProto \<Rightarrow>
                   (case runSet w ctx target transportProto params of
                      ((outcome, Some err), t) \<Rightarrow> (Some err, t1 @ t @ deferred)
                    | ((outcome, None), t) \<Rightarrow> (outcome, t1 @ t @ deferred)))))"

section \<open>Package http: the client of the job server's HTTP API (unnamed/part\_000)\<close>

subsection \<open>Data\<close>

text \<open>\<^verbatim>\<open>xjson.NewError(err)\<close>: the JSON-marshalable wrapper around an error.\<close>

datatype xjson_Error = xjson_NewError error

text \<open>
  \<^verbatim>\<open>HTTPPartiallyDecodedResponse\<close>; the pointer field \<^verbatim>\<open>Error\<close> is \<open>None\<close> when
  \<^verbatim>\<open>nil\<close>, the raw \<^verbatim>\<open>Data\<close> is empty when absent.
\<close>

record HTTPPartiallyDecodedResponse =
  resp_ServerID :: string
  resp_Type :: string
  resp_Data :: bytes
  resp_Error :: "xjson_Error option"

record HTTP =
  Addr :: string

text \<open>
  \<^verbatim>\<open>httplistener.HTTPAPIError\<close>, the body of a response whose status is not 200: an
  object with the message under \<^verbatim>\<open>msg\<close>.
\<close>

record HTTPAPIError =
  api_Msg :: string

text \<open>
  The responses of package \<^verbatim>\<open>api\<close> (\<^verbatim>\<open>VersionResponse\<close>, \<^verbatim>\<open>StartResponse\<close>, ...)
  have the same three fields and differ in the type of \<^verbatim>\<open>Data\<close>, here the parameter.
\<close>

record 'd api_Response =
  ServerID :: string
  Data :: 'd
  Err :: "xjson_Error option"

text \<open>The fields of \<^verbatim>\<open>url.URL\<close> the client reads or writes, and the host.\<close>

record url_URL =
  Scheme :: string
  Host :: string
  Path :: string

type_synonym url_Values = "string \<rightharpoonup> string list"

definition Values_Add :: "url_Values \<Rightarrow> string \<Rightarrow> string \<Rightarrow> url_Values" where
  "Values_Add v k x = v(k \<mapsto> (case v k of None \<Rightarrow> [x] | Some xs \<Rightarrow> xs @ [x]))"

definition Values_Set :: "url_Values \<Rightarrow> string \<Rightarrow> string \<Rightarrow> url_Values" where
  "Values_Set v k x = v(k \<mapsto> [x])"

fun strings_Join :: "string list \<Rightarrow> string \<Rightarrow> string" where
  "strings_Join [] sep = ''''"
| "strings_Join [x] sep = x"
| "strings_Join (x # y # ys) sep = x @ sep @ strings_Join (y # ys) sep"

text \<open>
  The answer to one POST: the status line, the status code, and what
  \<^verbatim>\<open>ioutil.ReadAll(resp.Body)\<close> gives.
\<close>

record http_Response =
  Status :: string
  StatusCode :: int
  Body :: "error + bytes"

text \<open>
  What the client calls outside the package: \<^verbatim>\<open>url.Parse\<close> and \<^verbatim>\<open>URL.String\<close>,
  \<^verbatim>\<open>http.PostForm\<close> (the network), \<^verbatim>\<open>json.Unmarshal\<close> at the two body types,
  \<^verbatim>\<open>strconv.Itoa\<close> and \<^verbatim>\<open>job.State.String\<close>.
\<close>

record http_world =
  url_Parse :: "string \<Rightarrow> error + url_URL"
  URL_String :: "url_URL \<Rightarrow> string"
  PostForm :: "string \<Rightarrow> url_Values \<Rightarrow> error + http_Response"
  Unmarshal_Response :: "bytes \<Rightarrow> error + HTTPPartiallyDecodedResponse"
  Unmarshal_APIError :: "bytes \<Rightarrow> error + HTTPAPIError"
  strconv_Itoa :: "int \<Rightarrow> string"
  State_String :: "int \<Rightarrow> string"

datatype http_action =
    Logger_Infof string
  | PostForm_call string url_Values

fun posts :: "http_action list \<Rightarrow> string list" where
  "posts [] = []"
| "posts (PostForm_call u v # t) = u # posts t"
| "posts (a # t) = posts t"

subsection \<open>The request\<close>

text \<open>
  \<^verbatim>\<open>HTTP.request(ctx, requestor, verb, params)\<close>. The context only supplies the logger;
  the two \<^verbatim>\<open>Infof\<close> lines are in the trace, the logger's fields are not. The second
  \<^verbatim>\<open>if err != nil\<close> of the status-200 branch tests the error of \<^verbatim>\<open>ReadAll\<close>, which is
  \<^verbatim>\<open>nil\<close> there, and never fires.
\<close>

definition HTTP_request ::
  "http_world \<Rightarrow> HTTP \<Rightarrow> string \<Rightarrow> string \<Rightarrow> url_Values
     \<Rightarrow> (error + HTTPPartiallyDecodedResponse) \<times> http_action list" where
  "HTTP_request w h requestor verb params0 =
     (let params = Values_Set params0 ''requestor'' requestor in
      case url_Parse w (Addr h) of
        Inl err \<Rightarrow>
          (Inl (errors_New (''failed to parse server address '' @ [CHR 0x27] @ Addr h @ [CHR 0x27]
                            @ '': '' @ Error_text err)), [])
      | Inr u0 \<Rightarrow>
         (if Scheme u0 = '''' then (Inl (errors_New ''server URL scheme not specified''), [])
          else if Scheme u0 \<noteq> ''http'' \<and> Scheme u0 \<noteq> ''https'' then
            (Inl (errors_New (''unsupported URL scheme '' @ [CHR 0x27] @ Scheme u0 @ [CHR 0x27]
                              @ '', please specify either http or https'')), [])
          else
            (let u = u0\<lparr>Path := Path u0 @ ''/'' @ verb\<rparr>;
                 t1 = [Logger_Infof (''Requesting URL '' @ URL_String w u @ '' with requestor ID ''
                                     @ [CHR 0x27] @ requestor @ [CHR 0x27, CHR 0x0A]),
                       PostForm_call (URL_String w u) params]
             in case PostForm w (URL_String w u) params of
                  Inl err \<Rightarrow> (Inl (errors_New (''HTTP POST failed: '' @ Error_text err)), t1)
                | Inr resp \<Rightarrow>
                   (case Body resp of
                      Inl err \<Rightarrow>
                        (Inl (errors_New (''cannot read HTTP response: '' @ Error_text err)), t1)
                    | Inr body \<Rightarrow>
                       (let t2 = t1 @ [Logger_Infof (''The server responded with status ''
                                                     @ Status resp @ [CHR 0x0A])]
                        in if StatusCode resp = 200 then
                             (case Unmarshal_Response w body of
                                Inl err \<Rightarrow>
                                  (Inl (errors_New (''response is not a valid HTTP API response object: ''
                                                    @ [CHR 0x27] @ body @ [CHR 0x27] @ '': ''
                                                    @ Error_text err)), t2)
                              | Inr apiResp \<Rightarrow> (Inr apiResp, t2))
                           else
                             (case Unmarshal_APIError w body of
                                Inl err \<Rightarrow>
                                  (Inl (errors_New (''response is not a valid HTTP API Error object: ''
                                                    @ [CHR 0x27] @ body @ [CHR 0x27] @ '': ''
                                                    @ Error_text err)), t2)
                              | Inr apiErr \<Rightarrow>
                                  (Inr \<lparr>resp_ServerID = '''', resp_Type = '''', resp_Data = '''',
                                        resp_Error = Some (xjson_NewError (errors_New (api_Msg apiErr)))\<rparr>,
                                   t2)))))))"

subsection \<open>The six verbs\<close>

text \<open>
  Every verb decodes \<^verbatim>\<open>resp.Data\<close> into its own data type. \<open>unmarshal\<close> is
  \<^verbatim>\<open>json.Unmarshal\<close> at that type and \<open>zero\<close> the type's zero value, with which
  \<^verbatim>\<open>data\<close> is declared.
\<close>

definition HTTP_Version ::
  "http_world \<Rightarrow> (bytes \<Rightarrow> error + 'd) \<Rightarrow> 'd \<Rightarrow> HTTP \<Rightarrow> string
     \<Rightarrow> (error + 'd api_Response) \<times> http_action list" where
  "HTTP_Version w unmarshal zero h requestor =
     (case HTTP_request w h requestor ''version'' Map.empty of
        (Inl err, t) \<Rightarrow> (Inl err, t)
      | (Inr resp, t) \<Rightarrow>
         (if resp_Data resp \<noteq> '''' then
            (case unmarshal (resp_Data resp) of
               Inl err \<Rightarrow> (Inl (errors_New (''cannot decode json response: '' @ Error_text err)), t)
             | Inr data \<Rightarrow>
                 (Inr \<lparr>ServerID = resp_ServerID resp, Data = data, Err = resp_Error resp\<rparr>, t))
          else (Inr \<lparr>ServerID = resp_ServerID resp, Data = zero, Err = resp_Error resp\<rparr>, t)))"

definition HTTP_Start ::
  "http_world \<Rightarrow> (bytes \<Rightarrow> error + 'd) \<Rightarrow> 'd \<Rightarrow> HTTP \<Rightarrow> string \<Rightarrow> string
     \<Rightarrow> (error + 'd api_Response) \<times> http_action list" where
  "HTTP_Start w unmarshal zero h requestor jobDescriptor =
     (case HTTP_request w h requestor ''start'' (Values_Add Map.empty ''jobDesc'' jobDescriptor) of
        (Inl err, t) \<Rightarrow> (Inl err, t)
      | (Inr resp, t) \<Rightarrow>
         (if resp_Data resp \<noteq> '''' then
            (case unmarshal (resp_Data resp) of
               Inl err \<Rightarrow> (Inl (errors_New (''cannot decode json response: '' @ Error_text err)), t)
             | Inr data \<Rightarrow>
                 (Inr \<lparr>ServerID = resp_ServerID resp, Data = data, Err = resp_Error resp\<rparr>, t))
          else (Inr \<lparr>ServerID = resp_ServerID resp, Data = zero, Err = resp_Error resp\<rparr>, t)))"

text \<open>
  \<^verbatim>\<open>types.JobID\<close> is an unsigned 64-bit integer; \<^verbatim>\<open>int(jobID)\<close> reads the same bits
  as a signed one.
\<close>

definition HTTP_Stop ::
  "http_world \<Rightarrow> (bytes \<Rightarrow> error + 'd) \<Rightarrow> 'd \<Rightarrow> HTTP \<Rightarrow> string \<Rightarrow> 64 word
     \<Rightarrow> (error + 'd api_Response) \<times> http_action list" where
  "HTTP_Stop w unmarshal zero h requestor jobID =
     (case HTTP_request w h requestor ''stop''
             (Values_Add Map.empty ''jobID'' (strconv_Itoa w (sint jobID))) of
        (Inl err, t) \<Rightarrow> (Inl err, t)
      | (Inr resp, t) \<Rightarrow>
         (if resp_Data resp \<noteq> '''' then
            (case unmarshal (resp_Data resp) of
               Inl err \<Rightarrow> (Inl (errors_New (''cannot decode json response: '' @ Error_text err)), t)
             | Inr data \<Rightarrow>
                 (Inr \<lparr>ServerID = resp_ServerID resp, Data = data, Err = resp_Error resp\<rparr>, t))
          else (Inr \<lparr>ServerID = resp_ServerID resp, Data = zero, Err = resp_Error resp\<rparr>, t)))"

definition HTTP_Status ::
  "http_world \<Rightarrow> (bytes \<Rightarrow> error + 'd) \<Rightarrow> 'd \<Rightarrow> HTTP \<Rightarrow> string \<Rightarrow> 64 word
     \<Rightarrow> (error + 'd api_Response) \<times> http_action list" where
  "HTTP_Status w unmarshal zero h requestor jobID =
     (case HTTP_request w h requestor ''status''
             (Values_Add Map.empty ''jobID'' (strconv_Itoa w (sint jobID))) of
        (Inl err, t) \<Rightarrow> (Inl err, t)
      | (Inr resp, t) \<Rightarrow>
         (if resp_Data resp \<noteq> '''' then
            (case unmarshal (resp_Data resp) of
               Inl err \<Rightarrow> (Inl (errors_New (''cannot decode json response: '' @ Error_text err)), t)
             | Inr data \<Rightarrow>
                 (Inr \<lparr>ServerID = resp_ServerID resp, Data = data, Err = resp_Error resp\<rparr>, t))
          else (Inr \<lparr>ServerID = resp_ServerID resp, Data = zero, Err = resp_Error resp\<rparr>, t)))"

definition HTTP_Retry ::
  "http_world \<Rightarrow> (bytes \<Rightarrow> error + 'd) \<Rightarrow> 'd \<Rightarrow> HTTP \<Rightarrow> string \<Rightarrow> 64 word
     \<Rightarrow> (error + 'd api_Response) \<times> http_action list" where
  "HTTP_Retry w unmarshal zero h requestor jobID =
     (case HTTP_request w h requestor ''retry''
             (Values_Add Map.empty ''jobID'' (strconv_Itoa w (sint jobID))) of
        (Inl err, t) \<Rightarrow> (Inl err, t)
      | (Inr resp, t) \<Rightarrow>
         (if resp_Data resp \<noteq> '''' then
            (case unmarshal (resp_Data resp) of
               Inl err \<Rightarrow> (Inl (errors_New (''cannot decode json response: '' @ Error_text err)), t)
             | Inr data \<Rightarrow>
                 (Inr \<lparr>ServerID = resp_ServerID resp, Data = data, Err = resp_Error resp\<rparr>, t))
          else (Inr \<lparr>ServerID = resp_ServerID resp, Data = zero, Err = resp_Error resp\<rparr>, t)))"

text \<open>The form values \<^verbatim>\<open>List\<close> builds from the states and the tags.\<close>

definition List_params :: "http_world \<Rightarrow> int list \<Rightarrow> string list \<Rightarrow> url_Values" where
  "List_params w states tags =
     (let p1 = (if length states > 0
                then Values_Set Map.empty ''states'' (strings_Join (map (State_String w) states) '','')
                else Map.empty)
      in if length tags > 0 then Values_Set p1 ''tags'' (strings_Join tags '','') else p1)"

definition HTTP_List ::
  "http_world \<Rightarrow> (bytes \<Rightarrow> error + 'd) \<Rightarrow> 'd \<Rightarrow> HTTP \<Rightarrow> string \<Rightarrow> int list \<Rightarrow> string list
     \<Rightarrow> (error + 'd api_Response) \<times> http_action list" where
  "HTTP_List w unmarshal zero h requestor states tags =
     (case HTTP_request w h requestor ''list'' (List_params w states tags) of
        (Inl err, t) \<Rightarrow> (Inl err, t)
      | (Inr resp, t) \<Rightarrow>
         (if resp_Data resp \<noteq> '''' then
            (case unmarshal (resp_Data resp) of
               Inl err \<Rightarrow> (Inl (errors_New (''cannot decode json response: '' @ Error_text err)), t)
             | Inr data \<Rightarrow>
                 (Inr \<lparr>ServerID = resp_ServerID resp, Data = data, Err = resp_Error resp\<rparr>, t))
          else (Inr \<lparr>ServerID = resp_ServerID resp, Data = zero, Err = resp_Error resp\<rparr>, t)))"

section \<open>Notions used to state the properties\<close>

text \<open>The context \<^verbatim>\<open>Run\<close> works with: the one derived by \<^verbatim>\<open>WithTimeout\<close> when a timeout is set.\<close>

definition run_ctx :: "('ctx, 'tgt) world \<Rightarrow> TestStep \<Rightarrow> 'ctx \<Rightarrow> 'ctx" where
  "run_ctx w ts ctx0 = (if ts_Timeout ts \<noteq> 0 then WithTimeout w ctx0 (ts_Timeout ts) else ctx0)"

text \<open>
  The trace of \<^verbatim>\<open>runSet\<close> from the creation of the process to the end of the reads,
  for a process that was created and gave both pipes.
\<close>

definition launched_trace :: "'ctx Process \<Rightarrow> 'ctx \<Rightarrow> inputStepParams \<Rightarrow> string list \<Rightarrow> 'tgt action list" where
  "launched_trace proc ctx params logs =
     [NewProcess_call privileged (argv params), StdoutPipe_call, StderrPipe_call, Start_call]
     @ (if Start proc ctx = None then [Wait_call] else []) @ map Printf logs"

text \<open>
  The error of \<^verbatim>\<open>HTTP.request\<close> for a parsed address whose scheme is neither
  \<^verbatim>\<open>http\<close> nor \<^verbatim>\<open>https\<close>: one text for a missing scheme, one for any other.
\<close>

definition scheme_error :: "url_URL \<Rightarrow> error" where
  "scheme_error u =
     (if Scheme u = [] then errors_New ''server URL scheme not specified''
      else errors_New (''unsupported URL scheme '' @ [CHR 0x27] @ Scheme u @ [CHR 0x27]
                       @ '', please specify either http or https''))"

section \<open>Concrete collaborators for the scenarios\<close>

text \<open>
  The values \<^verbatim>\<open>json.Unmarshal\<close> takes on the stderr texts of the scenarios: an object
  with the key \<^verbatim>\<open>error\<close> decodes to its string; the empty object, \<^verbatim>\<open>null\<close> and an
  object with another key only are accepted and leave the message empty (the decoder
  skips unknown keys and treats \<^verbatim>\<open>null\<close> as nothing to decode); any other text stands
  for output that is not JSON, such as \<^verbatim>\<open>segmentation fault\<close>, and is refused with the
  decoder's message for that text. It stands in for the decoder where a concrete run is
  evaluated.
\<close>

definition locked_stderr :: bytes where
  "locked_stderr = ''{\"error\":\"BIOS options are locked, needs unlocking.\"}''"

definition empty_error_stderr :: bytes where
  "empty_error_stderr = ''{\"error\":\"\"}''"

definition unknown_option_stderr :: bytes where
  "unknown_option_stderr = ''{\"error\":\"unknown option\"}''"

definition other_key_stderr :: bytes where
  "other_key_stderr = ''{\"msg\":\"boom\"}''"

definition decode_Error_examples :: "bytes \<Rightarrow> error + Error" where
  "decode_Error_examples b =
     (if b = locked_stderr then Inr \<lparr>Msg = ''BIOS options are locked, needs unlocking.''\<rparr>
      else if b = empty_error_stderr then Inr \<lparr>Msg = ''''\<rparr>
      else if b = unknown_option_stderr then Inr \<lparr>Msg = ''unknown option''\<rparr>
      else if b = ''{}'' \<or> b = ''null'' \<or> b = other_key_stderr then Inr \<lparr>Msg = ''''\<rparr>
      else Inl (errors_New ''invalid character 's' looking for beginning of value''))"

text \<open>
  \<^verbatim>\<open>json.Marshal\<close> of an \<^verbatim>\<open>eventPayload\<close> whose text is printable ASCII without
  \<^verbatim>\<open><\<close>, \<^verbatim>\<open>>\<close> and \<^verbatim>\<open>&\<close>: the quote and the backslash are escaped.
\<close>

fun json_escape :: "char \<Rightarrow> string" where
  "json_escape c =
     (if c = CHR 0x22 then [CHR 0x5C, CHR 0x22]
      else if c = CHR 0x5C then [CHR 0x5C, CHR 0x5C]
      else [c])"

definition example_Marshal :: "eventPayload \<Rightarrow> error + bytes" where
  "example_Marshal p = Inr (''{\"Msg\":\"'' @ concat (map json_escape (payload_Msg p)) @ ''\"}'')"

text \<open>
  A process that starts, writes the given bytes to its two streams and exits with the
  given result of \<^verbatim>\<open>Wait\<close>.
\<close>

definition example_process :: "bytes \<Rightarrow> bytes \<Rightarrow> error option \<Rightarrow> unit Process" where
  "example_process out err exit =
     \<lparr>StdoutPipe = Inr (out, None), StderrPipe = Inr (err, None),
      Start = (\<lambda>ctx. None), Wait = (\<lambda>ctx. exit)\<rparr>"

text \<open>
  A world whose expander returns the parameters as given, whose transport answers
  \<^verbatim>\<open>NewProcess\<close> with \<open>proc\<close>, and whose emitter answers as \<open>emit\<close> says. Targets are
  named by strings.
\<close>

definition example_world ::
  "(error + unit Process) \<Rightarrow> (string testevent_Data \<Rightarrow> error option) \<Rightarrow> (unit, string) world" where
  "example_world proc emit =
     \<lparr>WithTimeout = (\<lambda>ctx d. ctx),
      Target_String = (\<lambda>t. t),
      ExpandObject = (\<lambda>t p. Inr p),
      NewTransport = (\<lambda>t proto opts. Inr \<lparr>NewProcess = (\<lambda>ctx priv args. proc)\<rparr>),
      json_Unmarshal = decode_Error_examples,
      json_Marshal = example_Marshal,
      Emit = (\<lambda>ctx. emit)\<rparr>"

definition example_params :: "string \<Rightarrow> string \<Rightarrow> bool \<Rightarrow> inputStepParams" where
  "example_params pw key shallFail =
     \<lparr>Transport = \<lparr>Proto = ''ssh'', Options = ''{}''\<rparr>,
      Parameter = \<lparr>ToolPath = ''/usr/bin/tool'', Password = pw, KeyPath = key,
                   Option = ''SecureBoot'', Value = ''Enabled'', ShallFail = shallFail\<rparr>\<rparr>"

definition example_step :: "inputStepParams \<Rightarrow> TestStep" where
  "example_step params = \<lparr>ts_inputStepParams = params, ts_Timeout = 0\<rparr>"

text \<open>
  A process whose two reads end with an error after some bytes were copied.
\<close>

definition reset_process :: "unit Process" where
  "reset_process =
     \<lparr>StdoutPipe = Inr (''partial out'', Some (errors_New ''connection reset'')),
      StderrPipe = Inr (''{'', Some (errors_New ''connection reset'')),
      Start = (\<lambda>ctx. None), Wait = (\<lambda>ctx. None)\<rparr>"

text \<open>An emitter that accepts the event \<^verbatim>\<open>Stdout\<close> and refuses the event \<^verbatim>\<open>Stderr\<close>.\<close>

definition stderr_emit_fails :: "string testevent_Data \<Rightarrow> error option" where
  "stderr_emit_fails d = (if EventName d = ''Stderr'' then Some (errors_New ''storage down'') else None)"

subsection \<open>For the HTTP client\<close>

text \<open>\<^verbatim>\<open>strconv.Itoa\<close>: the decimal digits, with a minus sign for a negative number.\<close>

fun decimal :: "nat \<Rightarrow> string" where
  "decimal n = (if n < 10 then [''0123456789'' ! n]
                else decimal (n div 10) @ [''0123456789'' ! (n mod 10)])"

definition example_Itoa :: "int \<Rightarrow> string" where
  "example_Itoa i = (if i < 0 then ''-'' @ decimal (nat (- i)) else decimal (nat i))"

text \<open>
  The values \<^verbatim>\<open>url.Parse\<close> takes on the addresses of the scenarios: two with a scheme
  and a host, and text without a scheme, which parses as a path. \<^verbatim>\<open>URL.String\<close> puts
  the three fields together again.
\<close>

definition example_url_Parse :: "string \<Rightarrow> error + url_URL" where
  "example_url_Parse a =
     (if a = ''http://contest.example:8080''
      then Inr \<lparr>Scheme = ''http'', Host = ''contest.example:8080'', Path = ''''\<rparr>
      else if a = ''ftp://example.com''
      then Inr \<lparr>Scheme = ''ftp'', Host = ''example.com'', Path = ''''\<rparr>
      else Inr \<lparr>Scheme = '''', Host = '''', Path = a\<rparr>)"

definition example_URL_String :: "url_URL \<Rightarrow> string" where
  "example_URL_String u = (if Scheme u = '''' then '''' else Scheme u @ ''://'') @ Host u @ Path u"

text \<open>
  Two response bodies and what \<^verbatim>\<open>json.Unmarshal\<close> makes of them: the error object of
  a failed request, and an API response without the key \<^verbatim>\<open>Data\<close>, whose raw data
  stays empty.
\<close>

definition job_not_found_body :: bytes where
  "job_not_found_body = ''{\"msg\":\"job not found\"}''"

definition no_data_body :: bytes where
  "no_data_body = ''{\"ServerID\":\"srv1\",\"Type\":\"version\",\"Error\":null}''"

definition example_Unmarshal_Response :: "bytes \<Rightarrow> error + HTTPPartiallyDecodedResponse" where
  "example_Unmarshal_Response b =
     (if b = no_data_body
      then Inr \<lparr>resp_ServerID = ''srv1'', resp_Type = ''version'', resp_Data = '''', resp_Error = None\<rparr>
      else Inl (errors_New ''unexpected end of JSON input''))"

definition example_Unmarshal_APIError :: "bytes \<Rightarrow> error + HTTPAPIError" where
  "example_Unmarshal_APIError b =
     (if b = job_not_found_body then Inr \<lparr>api_Msg = ''job not found''\<rparr>
      else Inl (errors_New ''unexpected end of JSON input''))"

text \<open>A server that answers every POST with \<open>resp\<close>.\<close>

definition example_http_world :: "http_Response \<Rightarrow> http_world" where
  "example_http_world resp =
     \<lparr>url_Parse = example_url_Parse,
      URL_String = example_URL_String,
      PostForm = (\<lambda>url vals. Inr resp),
      Unmarshal_Response = example_Unmarshal_Response,
      Unmarshal_APIError = example_Unmarshal_APIError,
      strconv_Itoa = example_Itoa,
      State_String = (\<lambda>s. ''JobState('' @ example_Itoa s @ '')'')\<rparr>"

definition job_not_found_response :: http_Response where
  "job_not_found_response =
     \<lparr>Status = ''500 Internal Server Error'', StatusCode = 500, Body = Inr job_not_found_body\<rparr>"

definition no_data_response :: http_Response where
  "no_data_response = \<lparr>Status = ''200 OK'', StatusCode = 200, Body = Inr no_data_body\<rparr>"

text \<open>A decoder of typed data that refuses every input; the data are numbers, zero value 0.\<close>

definition no_decoder :: "bytes \<Rightarrow> error + nat" where
  "no_decoder b = Inl (errors_New ''unexpected end of JSON input'')"

section \<open>Shared facts\<close>

lemmas example_defs =
  example_world_def example_step_def example_params_def example_process_def
  example_Marshal_def decode_Error_examples_def locked_stderr_def empty_error_stderr_def
  unknown_option_stderr_def supportedProto_def privileged_def cmd_def jsonFlag_def
  argv_def authString_def run_ctx_def EventStdout_def EventStderr_def

lemma attempted_append: "attempted (a @ b) = attempted a @ attempted b"
  by (induction a rule: attempted.induct) simp_all

lemma emitted_append: "emitted (a @ b) = emitted a @ emitted b"
  by (induction a rule: emitted.induct) simp_all

lemma attempted_Printf: "attempted (map Printf ls) = []"
  by (induction ls) simp_all

lemma emitted_Printf: "emitted (map Printf ls) = []"
  by (induction ls) simp_all

lemma remote_calls_Nil: "remote_calls [] = []"
  by (simp add: remote_calls_def)

lemma remote_calls_Cons:
  "remote_calls (a # t) = (if is_remote a then a # remote_calls t else remote_calls t)"
  by (simp add: remote_calls_def)

lemma remote_calls_append: "remote_calls (a @ b) = remote_calls a @ remote_calls b"
  by (simp add: remote_calls_def)

lemma readBuffer_cases:
  "readBuffer (b, e) = (if e = None \<or> e = Some io_EOF then (b, None) else ([], e))"
  by (auto simp: readBuffer_def split: option.splits)

lemma runSet_NewProcess_error:
  "NewProcess tr ctx privileged (argv params) = Inl e \<Longrightarrow>
   runSet w ctx target tr params =
     ((None, Some (errors_New (''failed to create process: '' @ Error_text e))),
      [NewProcess_call privileged (argv params)])"
  by (simp add: runSet_def)

lemma runSet_StdoutPipe_error:
  "NewProcess tr ctx privileged (argv params) = Inr proc \<Longrightarrow> StdoutPipe proc = Inl e \<Longrightarrow>
   runSet w ctx target tr params =
     ((None, Some (errors_New (''failed to pipe stdout: '' @ Error_text e))),
      [NewProcess_call privileged (argv params), StdoutPipe_call])"
  by (simp add: runSet_def)

lemma runSet_StderrPipe_error:
  "NewProcess tr ctx privileged (argv params) = Inr proc \<Longrightarrow> StdoutPipe proc = Inr so \<Longrightarrow>
   StderrPipe proc = Inl e \<Longrightarrow>
   runSet w ctx target tr params =
     ((None, Some (errors_New (''failed to pipe stderr: '' @ Error_text e))),
      [NewProcess_call privileged (argv params), StdoutPipe_call, StderrPipe_call])"
  by (simp add: runSet_def)

lemma runSet_launched:
  assumes "NewProcess tr ctx privileged (argv params) = Inr proc"
    and "StdoutPipe proc = Inr so" and "StderrPipe proc = Inr se"
    and "getOutputFromReader so se = ((stdout, stderr), logs)"
  shows "runSet w ctx target tr params =
    (case parseSetOutput (json_Unmarshal w) stderr (ShallFail (Parameter params)) of
       Some err \<Rightarrow> ((None, Some err), launched_trace proc ctx params logs)
     | None \<Rightarrow>
        (case emitEvent w ctx EventStdout \<lparr>payload_Msg = stdout\<rparr> target of
           (Some err, e1) \<Rightarrow>
             ((None, Some (errors_New (''cannot emit event: '' @ Error_text err))),
              launched_trace proc ctx params logs @ e1)
         | (None, e1) \<Rightarrow>
            (case emitEvent w ctx EventStderr \<lparr>payload_Msg = stderr\<rparr> target of
               (Some err, e2) \<Rightarrow>
                 ((None, Some (errors_New (''cannot emit event: '' @ Error_text err))),
                  launched_trace proc ctx params logs @ e1 @ e2)
             | (None, e2) \<Rightarrow>
                 ((if Start proc ctx = None then Wait proc ctx else Start proc ctx, None),
                  launched_trace proc ctx params logs @ e1 @ e2))))"
  using assms by (simp add: runSet_def launched_trace_def Let_def split: option.splits prod.splits)

lemma runSet_never_both:
  "fst (fst (runSet w ctx target tr params)) = None \<or> snd (fst (runSet w ctx target tr params)) = None"
  by (simp add: runSet_def Let_def split: sum.splits option.splits prod.splits)


lemma Run_validated:
  assumes "ExpandObject w target (ts_inputStepParams ts) = Inr params"
    and "Proto (Transport params) = supportedProto"
    and "Password (Parameter params) \<noteq> [] \<or> KeyPath (Parameter params) \<noteq> []"
    and "Option (Parameter params) \<noteq> []" and "Value (Parameter params) \<noteq> []"
    and "NewTransport w target (Proto (Transport params)) (Options (Transport params)) = Inr tr"
  shows "fst (Run w ts ctx0 target) =
           (case snd (fst (runSet w (run_ctx w ts ctx0) target tr params)) of
              Some err \<Rightarrow> Some err
            | None \<Rightarrow> fst (fst (runSet w (run_ctx w ts ctx0) target tr params)))"
    and "attempted (snd (Run w ts ctx0 target)) =
           attempted (snd (runSet w (run_ctx w ts ctx0) target tr params))"
    and "emitted (snd (Run w ts ctx0 target)) =
           emitted (snd (runSet w (run_ctx w ts ctx0) target tr params))"
    and "remote_calls (snd (Run w ts ctx0 target)) =
           NewTransport_call (Proto (Transport params)) (Options (Transport params))
           # remote_calls (snd (runSet w (run_ctx w ts ctx0) target tr params))"
  using assms
  by (auto simp: Run_def run_ctx_def Let_def attempted_append emitted_append remote_calls_def
           split: prod.splits option.splits)

section \<open>The runner: launch errors and execution results\<close>

text \<open>
  C1. In a run of \<^verbatim>\<open>TargetRunner.Run\<close> that reaches \<^verbatim>\<open>runSet\<close> (the parameters expand and
  validate, the transport is constructed), the launch-failure path and the
  execution-result path exclude each other. When \<^verbatim>\<open>NewProcess\<close>, \<^verbatim>\<open>StdoutPipe\<close> or
  \<^verbatim>\<open>StderrPipe\<close> fails, \<^verbatim>\<open>Run\<close> returns that error (with the prefix naming the step)
  at once: nothing follows the failed call, the process is never started and no event is
  handed to the emitter. When all three succeed the process is started. In every case at
  most one component of the pair \<^verbatim>\<open>(outcome, err)\<close> of \<^verbatim>\<open>runSet\<close> is not \<^verbatim>\<open>nil\<close>, and
  \<^verbatim>\<open>Run\<close> returns that one (\<^verbatim>\<open>nil\<close> when both are).
\<close>

theorem Run_launch_error_or_execution_result:
  assumes "ExpandObject w target (ts_inputStepParams ts) = Inr params"
    and "Proto (Transport params) = supportedProto"
    and "Password (Parameter params) \<noteq> [] \<or> KeyPath (Parameter params) \<noteq> []"
    and "Option (Parameter params) \<noteq> []" and "Value (Parameter params) \<noteq> []"
    and "NewTransport w target (Proto (Transport params)) (Options (Transport params)) = Inr tr"
  shows
    "(\<forall>e. NewProcess tr (run_ctx w ts ctx0) privileged (argv params) = Inl e \<longrightarrow>
        fst (Run w ts ctx0 target) =
          Some (errors_New (''failed to create process: '' @ Error_text e))
        \<and> attempted (snd (Run w ts ctx0 target)) = []
        \<and> remote_calls (snd (Run w ts ctx0 target)) =
            [NewTransport_call (Proto (Transport params)) (Options (Transport params)),
             NewProcess_call privileged (argv params)])
   \<and> (\<forall>proc e. NewProcess tr (run_ctx w ts ctx0) privileged (argv params) = Inr proc
          \<and> StdoutPipe proc = Inl e \<longrightarrow>
        fst (Run w ts ctx0 target) =
          Some (errors_New (''failed to pipe stdout: '' @ Error_text e))
        \<and> attempted (snd (Run w ts ctx0 target)) = []
        \<and> remote_calls (snd (Run w ts ctx0 target)) =
            [NewTransport_call (Proto (Transport params)) (Options (Transport params)),
             NewProcess_call privileged (argv params), StdoutPipe_call])
   \<and> (\<forall>proc so e. NewProcess tr (run_ctx w ts ctx0) privileged (argv params) = Inr proc
          \<and> StdoutPipe proc = Inr so \<and> StderrPipe proc = Inl e \<longrightarrow>
        fst (Run w ts ctx0 target) =
          Some (errors_New (''failed to pipe stderr: '' @ Error_text e))
        \<and> attempted (snd (Run w ts ctx0 target)) = []
        \<and> remote_calls (snd (Run w ts ctx0 target)) =
            [NewTransport_call (Proto (Transport params)) (Options (Transport params)),
             NewProcess_call privileged (argv params), StdoutPipe_call, StderrPipe_call])
   \<and> (\<forall>proc so se. NewProcess tr (run_ctx w ts ctx0) privileged (argv params) = Inr proc
          \<and> StdoutPipe proc = Inr so \<and> StderrPipe proc = Inr se \<longrightarrow>
        Start_call \<in> set (snd (Run w ts ctx0 target)))
   \<and> (fst (fst (runSet w (run_ctx w ts ctx0) target tr params)) = None
        \<or> snd (fst (runSet w (run_ctx w ts ctx0) target tr params)) = None)
   \<and> fst (Run w ts ctx0 target) =
        (case snd (fst (runSet w (run_ctx w ts ctx0) target tr params)) of
           Some err \<Rightarrow> Some err
         | None \<Rightarrow> fst (fst (runSet w (run_ctx w ts ctx0) target tr params)))"
proof -
  note rv = Run_validated [OF assms]
  have a: "\<forall>e. NewProcess tr (run_ctx w ts ctx0) privileged (argv params) = Inl e \<longrightarrow>
        fst (Run w ts ctx0 target) =
          Some (errors_New (''failed to create process: '' @ Error_text e))
        \<and> attempted (snd (Run w ts ctx0 target)) = []
        \<and> remote_calls (snd (Run w ts ctx0 target)) =
            [NewTransport_call (Proto (Transport params)) (Options (Transport params)),
             NewProcess_call privileged (argv params)]"
    by (simp add: rv runSet_NewProcess_error remote_calls_Nil remote_calls_Cons)
  have b: "\<forall>proc e. NewProcess tr (run_ctx w ts ctx0) privileged (argv params) = Inr proc
          \<and> StdoutPipe proc = Inl e \<longrightarrow>
        fst (Run w ts ctx0 target) =
          Some (errors_New (''failed to pipe stdout: '' @ Error_text e))
        \<and> attempted (snd (Run w ts ctx0 target)) = []
        \<and> remote_calls (snd (Run w ts ctx0 target)) =
            [NewTransport_call (Proto (Transport params)) (Options (Transport params)),
             NewProcess_call privileged (argv params), StdoutPipe_call]"
    by (simp add: rv runSet_StdoutPipe_error remote_calls_Nil remote_calls_Cons)
  have c: "\<forall>proc so e. NewProcess tr (run_ctx w ts ctx0) privileged (argv params) = Inr proc
          \<and> StdoutPipe proc = Inr so \<and> StderrPipe proc = Inl e \<longrightarrow>
        fst (Run w ts ctx0 target) =
          Some (errors_New (''failed to pipe stderr: '' @ Error_text e))
        \<and> attempted (snd (Run w ts ctx0 target)) = []
        \<and> remote_calls (snd (Run w ts ctx0 target)) =
            [NewTransport_call (Proto (Transport params)) (Options (Transport params)),
             NewProcess_call privileged (argv params), StdoutPipe_call, StderrPipe_call]"
    by (simp add: rv runSet_StderrPipe_error remote_calls_Nil remote_calls_Cons)
  have d: "\<forall>proc so se. NewProcess tr (run_ctx w ts ctx0) privileged (argv params) = Inr proc
          \<and> StdoutPipe proc = Inr so \<and> StderrPipe proc = Inr se \<longrightarrow>
        Start_call \<in> set (snd (Run w ts ctx0 target))"
    using assms
    by (auto simp: Run_def run_ctx_def runSet_def Let_def split: prod.splits option.splits)
  show ?thesis
    using a b c d runSet_never_both [of w "run_ctx w ts ctx0" target tr params] rv(1)
    by blast
qed


theorem Run_launch_error_or_execution_result_witness:
  "fst (Run (example_world (Inl (errors_New ''connection refused'')) (\<lambda>d. None))
          (example_step (example_params ''secret'' '''' False)) () ''dut01'')
     = Some (errors_New ''failed to create process: connection refused'')
   \<and> attempted (snd (Run (example_world (Inl (errors_New ''connection refused'')) (\<lambda>d. None))
          (example_step (example_params ''secret'' '''' False)) () ''dut01'')) = []
   \<and> fst (Run (example_world (Inr (example_process ''done'' empty_error_stderr None)) (\<lambda>d. None))
          (example_step (example_params ''secret'' '''' False)) () ''dut01'') = None
   \<and> Start_call \<in> set (snd (Run (example_world (Inr (example_process ''done'' empty_error_stderr None)) (\<lambda>d. None))
          (example_step (example_params ''secret'' '''' False)) () ''dut01''))"
proof -
  let ?p = "example_params ''secret'' '''' False"
  let ?ts = "example_step ?p"
  let ?bad = "example_world (Inl (errors_New ''connection refused'')) (\<lambda>d. None)"
  let ?good = "example_world (Inr (example_process ''done'' empty_error_stderr None)) (\<lambda>d. None)"
  let ?trbad = "\<lparr>NewProcess = (\<lambda>ctx priv args. (Inl (errors_New ''connection refused'') :: error + unit Process))\<rparr>"
  let ?trgood = "\<lparr>NewProcess = (\<lambda>ctx priv args. (Inr (example_process ''done'' empty_error_stderr None) :: error + unit Process))\<rparr>"
  have p: "Proto (Transport ?p) = supportedProto"
      "Password (Parameter ?p) \<noteq> [] \<or> KeyPath (Parameter ?p) \<noteq> []"
      "Option (Parameter ?p) \<noteq> []" "Value (Parameter ?p) \<noteq> []"
    by (simp_all add: example_params_def supportedProto_def)
  have xb: "ExpandObject ?bad ''dut01'' (ts_inputStepParams ?ts) = Inr ?p"
    and tb: "NewTransport ?bad ''dut01'' (Proto (Transport ?p)) (Options (Transport ?p)) = Inr ?trbad"
    by (simp_all add: example_world_def example_step_def)
  have xg: "ExpandObject ?good ''dut01'' (ts_inputStepParams ?ts) = Inr ?p"
    and tg: "NewTransport ?good ''dut01'' (Proto (Transport ?p)) (Options (Transport ?p)) = Inr ?trgood"
    by (simp_all add: example_world_def example_step_def)
  note bad = Run_launch_error_or_execution_result [OF xb p tb, of "()"]
  note good = Run_launch_error_or_execution_result [OF xg p tg, of "()"]
  have 1: "fst (Run ?bad ?ts () ''dut01'') = Some (errors_New ''failed to create process: connection refused'')
      \<and> attempted (snd (Run ?bad ?ts () ''dut01'')) = []"
    using bad by simp
  have 2: "Start_call \<in> set (snd (Run ?good ?ts () ''dut01''))"
    using good by (simp add: example_process_def)
  have r: "fst (runSet ?good (run_ctx ?good ?ts ()) ''dut01'' ?trgood ?p) = (None, None)"
    by (simp add: runSet_def getOutputFromReader_def readBuffer_def parseSetOutput_def
          emitEvent_def example_defs Let_def)
  have 3: "fst (Run ?good ?ts () ''dut01'') = None"
    using good r by simp
  show ?thesis using 1 2 3 by simp
qed

section \<open>Further shared facts\<close>

lemma getOutputFromReader_eval:
  "getOutputFromReader (b1, e1) (b2, e2) =
     (((if e1 = None \<or> e1 = Some io_EOF then b1 else []),
       (if e2 = None \<or> e2 = Some io_EOF then b2 else [])),
      (case e1 of
         Some e \<Rightarrow> (if e = io_EOF then []
                    else [''failed to read from Stdout buffer: '' @ Error_text e @ [CHR 0x0A]])
       | None \<Rightarrow> [])
      @ (case e2 of
         Some e \<Rightarrow> (if e = io_EOF then []
                    else [''failed to read from Stderr buffer: '' @ Error_text e @ [CHR 0x0A]])
       | None \<Rightarrow> []))"
  by (simp add: getOutputFromReader_def readBuffer_def split: option.splits)

lemma parseSetOutput_empty: "parseSetOutput unmarshal [] fail = None"
  by (simp add: parseSetOutput_def)

lemma emitEvent_marshalled:
  "json_Marshal w p = Inr pd \<Longrightarrow>
   emitEvent w ctx name p tgt =
     (case Emit w ctx \<lparr>EventName = name, Target = tgt, Payload = pd\<rparr> of
        Some err \<Rightarrow>
          (Some (errors_New (''cannot emit event EventCmdStart: '' @ Error_text err)),
           [Emit_call \<lparr>EventName = name, Target = tgt, Payload = pd\<rparr> (Some err)])
      | None \<Rightarrow> (None, [Emit_call \<lparr>EventName = name, Target = tgt, Payload = pd\<rparr> None]))"
  by (simp add: emitEvent_def Let_def)

lemma attempted_launched_trace: "attempted (launched_trace proc ctx params logs) = []"
  by (simp add: launched_trace_def attempted_append attempted_Printf)

lemma emitted_launched_trace: "emitted (launched_trace proc ctx params logs) = []"
  by (simp add: launched_trace_def emitted_append emitted_Printf)

lemma runSet_parser_error:
  assumes "NewProcess tr ctx privileged (argv params) = Inr proc"
    and "StdoutPipe proc = Inr so" and "StderrPipe proc = Inr se"
    and "getOutputFromReader so se = ((stdout, stderr), logs)"
    and "parseSetOutput (json_Unmarshal w) stderr (ShallFail (Parameter params)) = Some err"
  shows "runSet w ctx target tr params = ((None, Some err), launched_trace proc ctx params logs)"
  using assms(5) by (simp add: runSet_launched [OF assms(1-4)])

lemma runSet_parser_ok:
  assumes "NewProcess tr ctx privileged (argv params) = Inr proc"
    and "StdoutPipe proc = Inr so" and "StderrPipe proc = Inr se"
    and "getOutputFromReader so se = ((stdout, stderr), logs)"
    and "parseSetOutput (json_Unmarshal w) stderr (ShallFail (Parameter params)) = None"
  shows "runSet w ctx target tr params =
        (case emitEvent w ctx EventStdout \<lparr>payload_Msg = stdout\<rparr> target of
           (Some err, e1) \<Rightarrow>
             ((None, Some (errors_New (''cannot emit event: '' @ Error_text err))),
              launched_trace proc ctx params logs @ e1)
         | (None, e1) \<Rightarrow>
            (case emitEvent w ctx EventStderr \<lparr>payload_Msg = stderr\<rparr> target of
               (Some err, e2) \<Rightarrow>
                 ((None, Some (errors_New (''cannot emit event: '' @ Error_text err))),
                  launched_trace proc ctx params logs @ e1 @ e2)
             | (None, e2) \<Rightarrow>
                 ((if Start proc ctx = None then Wait proc ctx else Start proc ctx, None),
                  launched_trace proc ctx params logs @ e1 @ e2)))"
  using assms(5) by (simp add: runSet_launched [OF assms(1-4)])

section \<open>The output parser\<close>

lemma parseSetOutput_decoded:
  "stderr \<noteq> [] \<Longrightarrow> unmarshal stderr = Inr e \<Longrightarrow>
   parseSetOutput unmarshal stderr fail =
     (if Msg e = [] then None
      else if Msg e = ''BIOS options are locked, needs unlocking.'' \<and> fail then None
      else Some (errors_New (Msg e)))"
  by (simp add: parseSetOutput_def)

text \<open>
  C2. A non-empty stderr that decodes to a structured error with a non-empty message is
  tolerated (the result is \<^verbatim>\<open>nil\<close>) exactly when the message is
  "BIOS options are locked, needs unlocking." and the flag \<^verbatim>\<open>ShallFail\<close> is set; in every
  other case the result is an error whose text is the decoded message itself.
\<close>

theorem parseSetOutput_message:
  assumes "stderr \<noteq> []" and "unmarshal stderr = Inr e" and "Msg e \<noteq> []"
  shows "parseSetOutput unmarshal stderr fail =
           (if Msg e = ''BIOS options are locked, needs unlocking.'' \<and> fail then None
            else Some (errors_New (Msg e)))"
  using assms by (simp add: parseSetOutput_decoded)

theorem parseSetOutput_message_witness:
  "parseSetOutput decode_Error_examples locked_stderr True = None
   \<and> parseSetOutput decode_Error_examples locked_stderr False =
       Some (errors_New ''BIOS options are locked, needs unlocking.'')
   \<and> parseSetOutput decode_Error_examples unknown_option_stderr True =
       Some (errors_New ''unknown option'')"
proof -
  have ne: "locked_stderr \<noteq> []"
    by (simp add: locked_stderr_def)
  have d: "decode_Error_examples locked_stderr =
             Inr \<lparr>Msg = ''BIOS options are locked, needs unlocking.''\<rparr>"
    by (simp add: decode_Error_examples_def)
  have m: "Msg \<lparr>Msg = ''BIOS options are locked, needs unlocking.''\<rparr> \<noteq> []"
    by simp
  have ne2: "unknown_option_stderr \<noteq> []"
    by (simp add: unknown_option_stderr_def)
  have d2: "decode_Error_examples unknown_option_stderr = Inr \<lparr>Msg = ''unknown option''\<rparr>"
    by (simp add: decode_Error_examples_def locked_stderr_def unknown_option_stderr_def
          empty_error_stderr_def)
  have "parseSetOutput decode_Error_examples locked_stderr True = None"
    using parseSetOutput_message [where unmarshal = decode_Error_examples
        and stderr = locked_stderr and fail = True, OF ne d m] by simp
  moreover have "parseSetOutput decode_Error_examples locked_stderr False =
      Some (errors_New ''BIOS options are locked, needs unlocking.'')"
    using parseSetOutput_message [where unmarshal = decode_Error_examples
        and stderr = locked_stderr and fail = False, OF ne d m] by simp
  moreover have "parseSetOutput decode_Error_examples unknown_option_stderr True =
      Some (errors_New ''unknown option'')"
    using parseSetOutput_message [where unmarshal = decode_Error_examples
        and stderr = unknown_option_stderr and fail = True, OF ne2 d2] by simp
  ultimately show ?thesis by simp
qed

text \<open>
  C7 (as amended). For a non-empty stderr, \<^verbatim>\<open>parseSetOutput\<close> follows the decoder and
  checks no shape of its own. When \<^verbatim>\<open>json.Unmarshal\<close> refuses the bytes (text that is not
  JSON, or a JSON value whose type does not fit the struct), the result is, for either
  value of the flag, the decode error "failed to unmarshal stderr: " followed by the
  decoder's message, never a success. When \<^verbatim>\<open>json.Unmarshal\<close> accepts the bytes and leaves
  the message empty, as it does for JSON that is not of the shape with an \<^verbatim>\<open>error\<close> string
  (the empty object, \<^verbatim>\<open>null\<close>, an object with other keys only), the result is \<^verbatim>\<open>nil\<close>,
  again for either value of the flag.
\<close>

theorem parseSetOutput_refused_or_no_message:
  assumes "stderr \<noteq> []"
  shows "(\<forall>e. unmarshal stderr = Inl e \<longrightarrow>
            parseSetOutput unmarshal stderr fail =
              Some (errors_New (''failed to unmarshal stderr: '' @ Error_text e)))
       \<and> (\<forall>d. unmarshal stderr = Inr d \<and> Msg d = [] \<longrightarrow>
            parseSetOutput unmarshal stderr fail = None)"
  using assms by (simp add: parseSetOutput_def)

theorem parseSetOutput_refused_or_no_message_witness:
  "parseSetOutput decode_Error_examples ''segmentation fault'' True =
     Some (errors_New ''failed to unmarshal stderr: invalid character 's' looking for beginning of value'')
   \<and> parseSetOutput decode_Error_examples ''segmentation fault'' False =
     Some (errors_New ''failed to unmarshal stderr: invalid character 's' looking for beginning of value'')
   \<and> parseSetOutput decode_Error_examples other_key_stderr True = None
   \<and> parseSetOutput decode_Error_examples other_key_stderr False = None"
proof -
  have ne: "''segmentation fault'' \<noteq> []"
    by simp
  have d: "decode_Error_examples ''segmentation fault'' =
             Inl (errors_New ''invalid character 's' looking for beginning of value'')"
    by (simp add: decode_Error_examples_def locked_stderr_def unknown_option_stderr_def
          empty_error_stderr_def other_key_stderr_def)
  have ne2: "other_key_stderr \<noteq> []"
    by (simp add: other_key_stderr_def)
  have d2: "decode_Error_examples other_key_stderr = Inr \<lparr>Msg = ''''\<rparr>"
    by (simp add: decode_Error_examples_def locked_stderr_def unknown_option_stderr_def
          empty_error_stderr_def other_key_stderr_def)
  show ?thesis
    using parseSetOutput_refused_or_no_message [where unmarshal = decode_Error_examples
            and stderr = "''segmentation fault''" and fail = True, OF ne]
          parseSetOutput_refused_or_no_message [where unmarshal = decode_Error_examples
            and stderr = "''segmentation fault''" and fail = False, OF ne]
          parseSetOutput_refused_or_no_message [where unmarshal = decode_Error_examples
            and stderr = other_key_stderr and fail = True, OF ne2]
          parseSetOutput_refused_or_no_message [where unmarshal = decode_Error_examples
            and stderr = other_key_stderr and fail = False, OF ne2]
          d d2
    by simp
qed

text \<open>
  C7, as stated, fails. The empty object, \<^verbatim>\<open>null\<close> and an object that carries its message
  under another key are non-empty and not of the shape with an \<^verbatim>\<open>error\<close> string; the
  decoder accepts each of them and leaves the message empty, and \<^verbatim>\<open>parseSetOutput\<close>
  returns \<^verbatim>\<open>nil\<close>, a success and not a decode error, for either value of the flag.
\<close>

theorem parseSetOutput_silent_success_counterexample:
  "''{}'' \<noteq> []
   \<and> parseSetOutput decode_Error_examples ''{}'' False = None
   \<and> parseSetOutput decode_Error_examples ''{}'' True = None
   \<and> parseSetOutput decode_Error_examples ''null'' False = None
   \<and> parseSetOutput decode_Error_examples other_key_stderr False = None"
  by (simp add: parseSetOutput_def decode_Error_examples_def locked_stderr_def
        unknown_option_stderr_def empty_error_stderr_def other_key_stderr_def)

text \<open>
  C9. Parsing the same bytes twice with the same flag gives the same result both times:
  the function reads its two arguments and a local it initialises itself, nothing else,
  so the second call returns what the first returned.
\<close>

theorem parseSetOutput_idempotent:
  "snd (parseSetOutput_twice unmarshal stderr fail) = fst (parseSetOutput_twice unmarshal stderr fail)
   \<and> fst (parseSetOutput_twice unmarshal stderr fail) = parseSetOutput unmarshal stderr fail"
  by (simp add: parseSetOutput_twice_def Let_def)

theorem parseSetOutput_idempotent_witness:
  "parseSetOutput_twice decode_Error_examples locked_stderr False =
     (Some (errors_New ''BIOS options are locked, needs unlocking.''),
      Some (errors_New ''BIOS options are locked, needs unlocking.''))"
proof -
  have "parseSetOutput decode_Error_examples locked_stderr False =
      Some (errors_New ''BIOS options are locked, needs unlocking.'')"
    by (simp add: parseSetOutput_def decode_Error_examples_def locked_stderr_def)
  then show ?thesis
    using parseSetOutput_idempotent [of decode_Error_examples locked_stderr False]
    by (simp add: prod_eq_iff)
qed

section \<open>Draining the streams\<close>

text \<open>
  C8. \<^verbatim>\<open>getOutputFromReader\<close> reads stdout and then stderr, each to the end of its
  stream and into a buffer of its own, and returns two byte slices in every case: it has
  no error result. A read that ends with an error other than \<^verbatim>\<open>io.EOF\<close> leaves a
  \<^verbatim>\<open>nil\<close> slice for that stream and prints one line
  ("failed to read from Stdout buffer: ..." or "failed to read from Stderr buffer: ...").
  The run goes on: with both reads failed, \<^verbatim>\<open>runSet\<close> parses the empty stderr, emits the
  two events and returns the outcome of the process.
\<close>

theorem getOutputFromReader_read_errors_not_fatal:
  "fst (getOutputFromReader (b1, e1) (b2, e2)) =
     ((if e1 = None \<or> e1 = Some io_EOF then b1 else []),
      (if e2 = None \<or> e2 = Some io_EOF then b2 else []))
   \<and> snd (getOutputFromReader (b1, e1) (b2, e2)) =
      (case e1 of
         Some e \<Rightarrow> (if e = io_EOF then []
                    else [''failed to read from Stdout buffer: '' @ Error_text e @ [CHR 0x0A]])
       | None \<Rightarrow> [])
      @ (case e2 of
         Some e \<Rightarrow> (if e = io_EOF then []
                    else [''failed to read from Stderr buffer: '' @ Error_text e @ [CHR 0x0A]])
       | None \<Rightarrow> [])
   \<and> (\<forall>proc x1 x2.
         NewProcess tr ctx privileged (argv params) = Inr proc
         \<and> StdoutPipe proc = Inr (b1, Some x1) \<and> StderrPipe proc = Inr (b2, Some x2)
         \<and> x1 \<noteq> io_EOF \<and> x2 \<noteq> io_EOF
         \<and> fst (emitEvent w ctx EventStdout \<lparr>payload_Msg = []\<rparr> target) = None
         \<and> fst (emitEvent w ctx EventStderr \<lparr>payload_Msg = []\<rparr> target) = None
         \<longrightarrow>
         fst (runSet w ctx target tr params) =
           (if Start proc ctx = None then Wait proc ctx else Start proc ctx, None)
         \<and> Printf (''failed to read from Stdout buffer: '' @ Error_text x1 @ [CHR 0x0A])
             \<in> set (snd (runSet w ctx target tr params))
         \<and> Printf (''failed to read from Stderr buffer: '' @ Error_text x2 @ [CHR 0x0A])
             \<in> set (snd (runSet w ctx target tr params)))"
proof -
  have run: "fst (runSet w ctx target tr params) =
           (if Start proc ctx = None then Wait proc ctx else Start proc ctx, None)
         \<and> Printf (''failed to read from Stdout buffer: '' @ Error_text x1 @ [CHR 0x0A])
             \<in> set (snd (runSet w ctx target tr params))
         \<and> Printf (''failed to read from Stderr buffer: '' @ Error_text x2 @ [CHR 0x0A])
             \<in> set (snd (runSet w ctx target tr params))"
    if np: "NewProcess tr ctx privileged (argv params) = Inr proc"
      and so: "StdoutPipe proc = Inr (b1, Some x1)" and se: "StderrPipe proc = Inr (b2, Some x2)"
      and x: "x1 \<noteq> io_EOF" "x2 \<noteq> io_EOF"
      and m1: "fst (emitEvent w ctx EventStdout \<lparr>payload_Msg = []\<rparr> target) = None"
      and m2: "fst (emitEvent w ctx EventStderr \<lparr>payload_Msg = []\<rparr> target) = None"
    for proc x1 x2
  proof -
    have out: "getOutputFromReader (b1, Some x1) (b2, Some x2) =
        (([], []), [''failed to read from Stdout buffer: '' @ Error_text x1 @ [CHR 0x0A],
                    ''failed to read from Stderr buffer: '' @ Error_text x2 @ [CHR 0x0A]])"
      using x by (simp add: getOutputFromReader_eval)
    obtain t1 where e1: "emitEvent w ctx EventStdout \<lparr>payload_Msg = []\<rparr> target = (None, t1)"
      using m1 by (cases "emitEvent w ctx EventStdout \<lparr>payload_Msg = []\<rparr> target") simp
    obtain t2 where e2: "emitEvent w ctx EventStderr \<lparr>payload_Msg = []\<rparr> target = (None, t2)"
      using m2 by (cases "emitEvent w ctx EventStderr \<lparr>payload_Msg = []\<rparr> target") simp
    show ?thesis
      by (simp add: runSet_launched [OF np so se out] parseSetOutput_empty e1 e2 launched_trace_def)
  qed
  show ?thesis
    using run by (simp add: getOutputFromReader_eval)
qed

theorem getOutputFromReader_read_errors_not_fatal_witness:
  "getOutputFromReader (''partial out'', Some (errors_New ''connection reset''))
                       (''{'', Some (errors_New ''connection reset'')) =
     (([], []),
      [''failed to read from Stdout buffer: connection reset'' @ [CHR 0x0A],
       ''failed to read from Stderr buffer: connection reset'' @ [CHR 0x0A]])
   \<and> fst (runSet (example_world (Inr reset_process) (\<lambda>d. None)) () ''dut01''
            \<lparr>NewProcess = (\<lambda>ctx priv args. Inr reset_process)\<rparr>
            (example_params ''secret'' '''' False)) = (None, None)"
proof -
  let ?w = "example_world (Inr reset_process) (\<lambda>d. None)"
  let ?tr = "\<lparr>NewProcess = (\<lambda>ctx priv args. (Inr reset_process :: error + unit Process))\<rparr>"
  let ?p = "example_params ''secret'' '''' False"
  note T = getOutputFromReader_read_errors_not_fatal
    [where ?b1.0 = "''partial out''" and ?e1.0 = "Some (errors_New ''connection reset'')"
       and ?b2.0 = "''{''" and ?e2.0 = "Some (errors_New ''connection reset'')"
       and tr = ?tr and ctx = "()" and params = ?p and w = ?w and target = "''dut01''"]
  have m: "fst (emitEvent ?w () EventStdout \<lparr>payload_Msg = []\<rparr> ''dut01'') = None"
          "fst (emitEvent ?w () EventStderr \<lparr>payload_Msg = []\<rparr> ''dut01'') = None"
    by (simp_all add: emitEvent_def example_world_def example_Marshal_def)
  have 1: "getOutputFromReader (''partial out'', Some (errors_New ''connection reset''))
                       (''{'', Some (errors_New ''connection reset'')) =
     (([], []),
      [''failed to read from Stdout buffer: connection reset'' @ [CHR 0x0A],
       ''failed to read from Stderr buffer: connection reset'' @ [CHR 0x0A]])"
    using T by (simp add: prod_eq_iff)
  have 2: "fst (runSet ?w () ''dut01'' ?tr ?p) = (None, None)"
    using T m by (simp add: reset_process_def)
  show ?thesis using 1 2 by simp
qed

section \<open>Validation before any remote action\<close>

text \<open>
  C4 (as amended). \<^verbatim>\<open>TargetRunner.Run\<close> validates the expanded parameters before any
  remote action and fails fast with a descriptive error: the protocol must be "ssh", at
  least one of the password and the key path must be present, and the option and the
  value must be non-empty. On any violation \<^verbatim>\<open>Run\<close> returns the error of the first check
  that fails, and no transport is constructed, no process created and no event emitted.
\<close>

theorem Run_validation_fails_fast:
  assumes "ExpandObject w target (ts_inputStepParams ts) = Inr params"
    and "Proto (Transport params) \<noteq> ''ssh''
         \<or> (Password (Parameter params) = [] \<and> KeyPath (Parameter params) = [])
         \<or> Option (Parameter params) = [] \<or> Value (Parameter params) = []"
  shows "fst (Run w ts ctx0 target) =
           Some (errors_New
             (if Proto (Transport params) \<noteq> ''ssh''
              then ''only \"ssh\" is supported as protocol in this teststep''
              else if Password (Parameter params) = [] \<and> KeyPath (Parameter params) = []
              then ''password or certificate file must be set''
              else ''bios option and value must be set''))
         \<and> remote_calls (snd (Run w ts ctx0 target)) = []
         \<and> attempted (snd (Run w ts ctx0 target)) = []"
  using assms
  by (auto simp: Run_def Let_def supportedProto_def remote_calls_def)

theorem Run_validation_fails_fast_witness:
  "fst (Run (example_world (Inr (example_process ''done'' empty_error_stderr None)) (\<lambda>d. None))
          (example_step (example_params '''' '''' False)) () ''dut01'')
     = Some (errors_New ''password or certificate file must be set'')
   \<and> remote_calls (snd (Run (example_world (Inr (example_process ''done'' empty_error_stderr None)) (\<lambda>d. None))
          (example_step (example_params '''' '''' False)) () ''dut01'')) = []"
proof -
  let ?w = "example_world (Inr (example_process ''done'' empty_error_stderr None)) (\<lambda>d. None)"
  let ?p = "example_params '''' '''' False"
  have x: "ExpandObject ?w ''dut01'' (ts_inputStepParams (example_step ?p)) = Inr ?p"
    by (simp add: example_world_def example_step_def)
  have v: "Proto (Transport ?p) \<noteq> ''ssh''
         \<or> (Password (Parameter ?p) = [] \<and> KeyPath (Parameter ?p) = [])
         \<or> Option (Parameter ?p) = [] \<or> Value (Parameter ?p) = []"
    by (simp add: example_params_def)
  show ?thesis
    using Run_validation_fails_fast [OF x v, of "()"] by (simp add: example_params_def)
qed

text \<open>
  C4, as stated, fails. The check on the credentials is "at least one", not "exactly one": with a password and a
  key path both set the run passes validation, constructs the transport and runs the
  tool, to which it gives the password.
\<close>

theorem Run_both_credentials_counterexample:
  "Password (Parameter (example_params ''secret'' ''/root/.ssh/id_rsa'' False)) \<noteq> []
   \<and> KeyPath (Parameter (example_params ''secret'' ''/root/.ssh/id_rsa'' False)) \<noteq> []
   \<and> Run (example_world (Inr (example_process ''done'' empty_error_stderr None)) (\<lambda>d. None))
          (example_step (example_params ''secret'' ''/root/.ssh/id_rsa'' False)) () ''dut01''
     = (None,
        [Infof ''Executing on target dut01'', ExpandObject_call,
         NewTransport_call ''ssh'' ''{}'',
         NewProcess_call ''sudo''
           [''/usr/bin/tool'', ''wmi'', ''set'', ''--option=SecureBoot'',
            ''--value=Enabled'', ''--password=secret'', ''--json''],
         StdoutPipe_call, StderrPipe_call, Start_call, Wait_call,
         Emit_call \<lparr>EventName = ''Stdout'', Target = ''dut01'',
                     Payload = ''{\"Msg\":\"done\"}''\<rparr> None,
         Emit_call \<lparr>EventName = ''Stderr'', Target = ''dut01'',
                     Payload = ''{\"Msg\":\"'' @ concat (map json_escape empty_error_stderr)
                               @ ''\"}''\<rparr> None])"
  by (simp add: Run_def runSet_def getOutputFromReader_def readBuffer_def parseSetOutput_def
        emitEvent_def example_defs Let_def)

section \<open>Events of a launched run\<close>

text \<open>
  C3 (as amended). In a run whose process was created and gave both pipes:
  when \<^verbatim>\<open>parseSetOutput\<close> returns an error for the captured stderr, \<^verbatim>\<open>Run\<close> returns that
  error and hands no event to the emitter; when it returns \<^verbatim>\<open>nil\<close>, the event
  \<^verbatim>\<open>Stdout\<close> is handed to the emitter with the marshalled captured stdout as payload and
  tagged to the target, and, if the emitter accepts it, the event \<^verbatim>\<open>Stderr\<close> with the
  captured stderr follows, whatever \<^verbatim>\<open>Start\<close> and \<^verbatim>\<open>Wait\<close> returned. If both are
  accepted \<^verbatim>\<open>Run\<close> returns the outcome of the process; a failure to emit either event
  makes \<^verbatim>\<open>Run\<close> return an error ("cannot emit event: ...").
\<close>

theorem Run_emits_captured_output:
  assumes "ExpandObject w target (ts_inputStepParams ts) = Inr params"
    and "Proto (Transport params) = supportedProto"
    and "Password (Parameter params) \<noteq> [] \<or> KeyPath (Parameter params) \<noteq> []"
    and "Option (Parameter params) \<noteq> []" and "Value (Parameter params) \<noteq> []"
    and "NewTransport w target (Proto (Transport params)) (Options (Transport params)) = Inr tr"
    and "NewProcess tr (run_ctx w ts ctx0) privileged (argv params) = Inr proc"
    and "StdoutPipe proc = Inr so" and "StderrPipe proc = Inr se"
    and "getOutputFromReader so se = ((stdout, stderr), logs)"
  shows
    "(\<forall>err. parseSetOutput (json_Unmarshal w) stderr (ShallFail (Parameter params)) = Some err \<longrightarrow>
        fst (Run w ts ctx0 target) = Some err \<and> attempted (snd (Run w ts ctx0 target)) = [])
   \<and> (\<forall>p1 p2. parseSetOutput (json_Unmarshal w) stderr (ShallFail (Parameter params)) = None
         \<and> json_Marshal w \<lparr>payload_Msg = stdout\<rparr> = Inr p1
         \<and> json_Marshal w \<lparr>payload_Msg = stderr\<rparr> = Inr p2 \<longrightarrow>
        attempted (snd (Run w ts ctx0 target)) =
          (if Emit w (run_ctx w ts ctx0) \<lparr>EventName = EventStdout, Target = target, Payload = p1\<rparr> = None
           then [\<lparr>EventName = EventStdout, Target = target, Payload = p1\<rparr>,
                 \<lparr>EventName = EventStderr, Target = target, Payload = p2\<rparr>]
           else [\<lparr>EventName = EventStdout, Target = target, Payload = p1\<rparr>])
        \<and> emitted (snd (Run w ts ctx0 target)) =
          (if Emit w (run_ctx w ts ctx0) \<lparr>EventName = EventStdout, Target = target, Payload = p1\<rparr> = None
           then (if Emit w (run_ctx w ts ctx0) \<lparr>EventName = EventStderr, Target = target, Payload = p2\<rparr> = None
                 then [\<lparr>EventName = EventStdout, Target = target, Payload = p1\<rparr>,
                       \<lparr>EventName = EventStderr, Target = target, Payload = p2\<rparr>]
                 else [\<lparr>EventName = EventStdout, Target = target, Payload = p1\<rparr>])
           else [])
        \<and> fst (Run w ts ctx0 target) =
          (case Emit w (run_ctx w ts ctx0) \<lparr>EventName = EventStdout, Target = target, Payload = p1\<rparr> of
             Some e \<Rightarrow> Some (errors_New (''cannot emit event: cannot emit event EventCmdStart: ''
                                         @ Error_text e))
           | None \<Rightarrow>
              (case Emit w (run_ctx w ts ctx0) \<lparr>EventName = EventStderr, Target = target, Payload = p2\<rparr> of
                 Some e \<Rightarrow> Some (errors_New (''cannot emit event: cannot emit event EventCmdStart: ''
                                             @ Error_text e))
               | None \<Rightarrow> (if Start proc (run_ctx w ts ctx0) = None
                           then Wait proc (run_ctx w ts ctx0)
                           else Start proc (run_ctx w ts ctx0)))))
   \<and> (parseSetOutput (json_Unmarshal w) stderr (ShallFail (Parameter params)) = None
        \<and> (fst (emitEvent w (run_ctx w ts ctx0) EventStdout \<lparr>payload_Msg = stdout\<rparr> target) \<noteq> None
            \<or> fst (emitEvent w (run_ctx w ts ctx0) EventStderr \<lparr>payload_Msg = stderr\<rparr> target) \<noteq> None)
        \<longrightarrow> fst (Run w ts ctx0 target) \<noteq> None)"
proof -
  note rv = Run_validated [OF assms(1-6)]
  note pe = runSet_parser_error [OF assms(7-10)]
  note po = runSet_parser_ok [OF assms(7-10)]
  have a: "\<forall>err. parseSetOutput (json_Unmarshal w) stderr (ShallFail (Parameter params)) = Some err \<longrightarrow>
        fst (Run w ts ctx0 target) = Some err \<and> attempted (snd (Run w ts ctx0 target)) = []"
    by (simp add: rv pe attempted_launched_trace)
  have b: "attempted (snd (Run w ts ctx0 target)) =
          (if Emit w (run_ctx w ts ctx0) \<lparr>EventName = EventStdout, Target = target, Payload = p1\<rparr> = None
           then [\<lparr>EventName = EventStdout, Target = target, Payload = p1\<rparr>,
                 \<lparr>EventName = EventStderr, Target = target, Payload = p2\<rparr>]
           else [\<lparr>EventName = EventStdout, Target = target, Payload = p1\<rparr>])
        \<and> emitted (snd (Run w ts ctx0 target)) =
          (if Emit w (run_ctx w ts ctx0) \<lparr>EventName = EventStdout, Target = target, Payload = p1\<rparr> = None
           then (if Emit w (run_ctx w ts ctx0) \<lparr>EventName = EventStderr, Target = target, Payload = p2\<rparr> = None
                 then [\<lparr>EventName = EventStdout, Target = target, Payload = p1\<rparr>,
                       \<lparr>EventName = EventStderr, Target = target, Payload = p2\<rparr>]
                 else [\<lparr>EventName = EventStdout, Target = target, Payload = p1\<rparr>])
           else [])
        \<and> fst (Run w ts ctx0 target) =
          (case Emit w (run_ctx w ts ctx0) \<lparr>EventName = EventStdout, Target = target, Payload = p1\<rparr> of
             Some e \<Rightarrow> Some (errors_New (''cannot emit event: cannot emit event EventCmdStart: ''
                                         @ Error_text e))
           | None \<Rightarrow>
              (case Emit w (run_ctx w ts ctx0) \<lparr>EventName = EventStderr, Target = target, Payload = p2\<rparr> of
                 Some e \<Rightarrow> Some (errors_New (''cannot emit event: cannot emit event EventCmdStart: ''
                                             @ Error_text e))
               | None \<Rightarrow> (if Start proc (run_ctx w ts ctx0) = None
                           then Wait proc (run_ctx w ts ctx0)
                           else Start proc (run_ctx w ts ctx0))))"
    if "parseSetOutput (json_Unmarshal w) stderr (ShallFail (Parameter params)) = None"
      and "json_Marshal w \<lparr>payload_Msg = stdout\<rparr> = Inr p1"
      and "json_Marshal w \<lparr>payload_Msg = stderr\<rparr> = Inr p2" for p1 p2
    using that
    by (simp add: rv po emitEvent_marshalled attempted_append attempted_launched_trace
          emitted_append emitted_launched_trace split: option.splits)
  have c: "fst (Run w ts ctx0 target) \<noteq> None"
    if "parseSetOutput (json_Unmarshal w) stderr (ShallFail (Parameter params)) = None"
      and "fst (emitEvent w (run_ctx w ts ctx0) EventStdout \<lparr>payload_Msg = stdout\<rparr> target) \<noteq> None
            \<or> fst (emitEvent w (run_ctx w ts ctx0) EventStderr \<lparr>payload_Msg = stderr\<rparr> target) \<noteq> None"
    using that by (auto simp: rv po split: prod.splits option.splits)
  show ?thesis
    using a b c by blast
qed

theorem Run_emits_captured_output_witness:
  "attempted (snd (Run (example_world (Inr (example_process ''done'' locked_stderr
                                              (Some (errors_New ''exit status 1'')))) (\<lambda>d. None))
                       (example_step (example_params ''secret'' '''' True)) () ''dut01'')) =
     [\<lparr>EventName = ''Stdout'', Target = ''dut01'', Payload = ''{\"Msg\":\"done\"}''\<rparr>,
      \<lparr>EventName = ''Stderr'', Target = ''dut01'',
       Payload = ''{\"Msg\":\"'' @ concat (map json_escape locked_stderr) @ ''\"}''\<rparr>]
   \<and> fst (Run (example_world (Inr (example_process ''done'' locked_stderr
                                              (Some (errors_New ''exit status 1'')))) (\<lambda>d. None))
                       (example_step (example_params ''secret'' '''' True)) () ''dut01'') =
       Some (errors_New ''exit status 1'')
   \<and> fst (Run (example_world (Inr (example_process ''done'' empty_error_stderr None)) stderr_emit_fails)
                       (example_step (example_params ''secret'' '''' False)) () ''dut01'') =
       Some (errors_New ''cannot emit event: cannot emit event EventCmdStart: storage down'')
   \<and> attempted (snd (Run (example_world (Inr (example_process ''done'' locked_stderr None)) (\<lambda>d. None))
                       (example_step (example_params ''secret'' '''' False)) () ''dut01'')) = []"
proof -
  let ?pT = "example_params ''secret'' '''' True"
  let ?pF = "example_params ''secret'' '''' False"
  let ?proc1 = "example_process ''done'' locked_stderr (Some (errors_New ''exit status 1''))"
  let ?proc2 = "example_process ''done'' empty_error_stderr None"
  let ?proc3 = "example_process ''done'' locked_stderr None"
  let ?w1 = "example_world (Inr ?proc1) (\<lambda>d. None)"
  let ?w2 = "example_world (Inr ?proc2) stderr_emit_fails"
  let ?w3 = "example_world (Inr ?proc3) (\<lambda>d. None)"
  have pT: "Proto (Transport ?pT) = supportedProto"
      "Password (Parameter ?pT) \<noteq> [] \<or> KeyPath (Parameter ?pT) \<noteq> []"
      "Option (Parameter ?pT) \<noteq> []" "Value (Parameter ?pT) \<noteq> []"
    by (simp_all add: example_params_def supportedProto_def)
  have pF: "Proto (Transport ?pF) = supportedProto"
      "Password (Parameter ?pF) \<noteq> [] \<or> KeyPath (Parameter ?pF) \<noteq> []"
      "Option (Parameter ?pF) \<noteq> []" "Value (Parameter ?pF) \<noteq> []"
    by (simp_all add: example_params_def supportedProto_def)
  have x1: "ExpandObject ?w1 ''dut01'' (ts_inputStepParams (example_step ?pT)) = Inr ?pT"
    and t1: "NewTransport ?w1 ''dut01'' (Proto (Transport ?pT)) (Options (Transport ?pT)) =
              Inr \<lparr>NewProcess = (\<lambda>ctx priv args. Inr ?proc1)\<rparr>"
    and n1: "NewProcess \<lparr>NewProcess = (\<lambda>ctx priv args. Inr ?proc1)\<rparr>
               (run_ctx ?w1 (example_step ?pT) ()) privileged (argv ?pT) = Inr ?proc1"
    and so1: "StdoutPipe ?proc1 = Inr (''done'', None)"
    and se1: "StderrPipe ?proc1 = Inr (locked_stderr, None)"
    and o1: "getOutputFromReader (''done'', None) (locked_stderr, None) = ((''done'', locked_stderr), [])"
    by (simp_all add: example_world_def example_step_def example_process_def
          getOutputFromReader_eval)
  note T1 = Run_emits_captured_output [OF x1 pT t1 n1 so1 se1 o1]
  have q1: "parseSetOutput (json_Unmarshal ?w1) locked_stderr (ShallFail (Parameter ?pT)) = None"
    by (simp add: parseSetOutput_def example_defs)
  have m1: "json_Marshal ?w1 \<lparr>payload_Msg = ''done''\<rparr> = Inr ''{\"Msg\":\"done\"}''"
    "json_Marshal ?w1 \<lparr>payload_Msg = locked_stderr\<rparr> =
       Inr (''{\"Msg\":\"'' @ concat (map json_escape locked_stderr) @ ''\"}'')"
    by (simp_all add: example_world_def example_Marshal_def)
  have A: "attempted (snd (Run ?w1 (example_step ?pT) () ''dut01'')) =
     [\<lparr>EventName = ''Stdout'', Target = ''dut01'', Payload = ''{\"Msg\":\"done\"}''\<rparr>,
      \<lparr>EventName = ''Stderr'', Target = ''dut01'',
       Payload = ''{\"Msg\":\"'' @ concat (map json_escape locked_stderr) @ ''\"}''\<rparr>]
     \<and> fst (Run ?w1 (example_step ?pT) () ''dut01'') = Some (errors_New ''exit status 1'')"
    using T1 q1 m1
    by (simp add: example_world_def example_process_def EventStdout_def EventStderr_def)
  have x2: "ExpandObject ?w2 ''dut01'' (ts_inputStepParams (example_step ?pF)) = Inr ?pF"
    and t2: "NewTransport ?w2 ''dut01'' (Proto (Transport ?pF)) (Options (Transport ?pF)) =
              Inr \<lparr>NewProcess = (\<lambda>ctx priv args. Inr ?proc2)\<rparr>"
    and n2: "NewProcess \<lparr>NewProcess = (\<lambda>ctx priv args. Inr ?proc2)\<rparr>
               (run_ctx ?w2 (example_step ?pF) ()) privileged (argv ?pF) = Inr ?proc2"
    and so2: "StdoutPipe ?proc2 = Inr (''done'', None)"
    and se2: "StderrPipe ?proc2 = Inr (empty_error_stderr, None)"
    and o2: "getOutputFromReader (''done'', None) (empty_error_stderr, None) =
              ((''done'', empty_error_stderr), [])"
    by (simp_all add: example_world_def example_step_def example_process_def
          getOutputFromReader_eval)
  note T2 = Run_emits_captured_output [OF x2 pF t2 n2 so2 se2 o2]
  have q2: "parseSetOutput (json_Unmarshal ?w2) empty_error_stderr (ShallFail (Parameter ?pF)) = None"
    by (simp add: parseSetOutput_def example_defs)
  have m2: "json_Marshal ?w2 \<lparr>payload_Msg = ''done''\<rparr> = Inr ''{\"Msg\":\"done\"}''"
    "json_Marshal ?w2 \<lparr>payload_Msg = empty_error_stderr\<rparr> =
       Inr (''{\"Msg\":\"'' @ concat (map json_escape empty_error_stderr) @ ''\"}'')"
    by (simp_all add: example_world_def example_Marshal_def)
  have B: "fst (Run ?w2 (example_step ?pF) () ''dut01'') =
       Some (errors_New ''cannot emit event: cannot emit event EventCmdStart: storage down'')"
    using T2 q2 m2
    by (simp add: example_world_def stderr_emit_fails_def EventStdout_def EventStderr_def)
  have x3: "ExpandObject ?w3 ''dut01'' (ts_inputStepParams (example_step ?pF)) = Inr ?pF"
    and t3: "NewTransport ?w3 ''dut01'' (Proto (Transport ?pF)) (Options (Transport ?pF)) =
              Inr \<lparr>NewProcess = (\<lambda>ctx priv args. Inr ?proc3)\<rparr>"
    and n3: "NewProcess \<lparr>NewProcess = (\<lambda>ctx priv args. Inr ?proc3)\<rparr>
               (run_ctx ?w3 (example_step ?pF) ()) privileged (argv ?pF) = Inr ?proc3"
    and so3: "StdoutPipe ?proc3 = Inr (''done'', None)"
    and se3: "StderrPipe ?proc3 = Inr (locked_stderr, None)"
    by (simp_all add: example_world_def example_step_def example_process_def)
  note T3 = Run_emits_captured_output [OF x3 pF t3 n3 so3 se3 o1]
  have q3: "parseSetOutput (json_Unmarshal ?w3) locked_stderr (ShallFail (Parameter ?pF)) =
             Some (errors_New ''BIOS options are locked, needs unlocking.'')"
    by (simp add: parseSetOutput_def example_defs)
  have C: "attempted (snd (Run ?w3 (example_step ?pF) () ''dut01'')) = []"
    using T3 q3 by simp
  show ?thesis using A B C by simp
qed

text \<open>
  C3, as stated, fails. A domain error found by the parser ends the run before anything
  is emitted: the process
  was started and waited for, stderr carried the error "unknown option", and the trace
  has no call of the emitter.
\<close>

theorem Run_domain_error_counterexample:
  "Run (example_world (Inr (example_process ''done'' unknown_option_stderr None)) (\<lambda>d. None))
       (example_step (example_params ''secret'' '''' False)) () ''dut01''
     = (Some (errors_New ''unknown option''),
        [Infof ''Executing on target dut01'', ExpandObject_call,
         NewTransport_call ''ssh'' ''{}'',
         NewProcess_call ''sudo''
           [''/usr/bin/tool'', ''wmi'', ''set'', ''--option=SecureBoot'',
            ''--value=Enabled'', ''--password=secret'', ''--json''],
         StdoutPipe_call, StderrPipe_call, Start_call, Wait_call])
   \<and> attempted (snd (Run (example_world (Inr (example_process ''done'' unknown_option_stderr None)) (\<lambda>d. None))
       (example_step (example_params ''secret'' '''' False)) () ''dut01'')) = []"
  by (simp add: Run_def runSet_def getOutputFromReader_def readBuffer_def parseSetOutput_def
        emitEvent_def example_defs Let_def)

section \<open>The HTTP client\<close>

lemmas http_example_defs =
  example_http_world_def example_url_Parse_def example_URL_String_def
  example_Unmarshal_Response_def example_Unmarshal_APIError_def
  job_not_found_body_def no_data_body_def

lemma HTTP_request_scheme:
  assumes "url_Parse w (Addr h) = Inr u" and "Scheme u \<noteq> ''http''" and "Scheme u \<noteq> ''https''"
  shows "HTTP_request w h requestor verb params = (Inl (scheme_error u), [])"
  using assms by (simp add: HTTP_request_def scheme_error_def Let_def)

lemma HTTP_request_answered:
  assumes "url_Parse w (Addr h) = Inr u" and "Scheme u = ''http'' \<or> Scheme u = ''https''"
    and "PostForm w (URL_String w (u\<lparr>Path := Path u @ ''/'' @ verb\<rparr>))
           (Values_Set params ''requestor'' requestor) = Inr resp"
    and "Body resp = Inr body"
  shows "fst (HTTP_request w h requestor verb params) =
     (if StatusCode resp = 200 then
        (case Unmarshal_Response w body of
           Inl err \<Rightarrow> Inl (errors_New (''response is not a valid HTTP API response object: ''
                                       @ [CHR 0x27] @ body @ [CHR 0x27] @ '': '' @ Error_text err))
         | Inr apiResp \<Rightarrow> Inr apiResp)
      else
        (case Unmarshal_APIError w body of
           Inl err \<Rightarrow> Inl (errors_New (''response is not a valid HTTP API Error object: ''
                                       @ [CHR 0x27] @ body @ [CHR 0x27] @ '': '' @ Error_text err))
         | Inr apiErr \<Rightarrow>
             Inr \<lparr>resp_ServerID = '''', resp_Type = '''', resp_Data = '''',
                  resp_Error = Some (xjson_NewError (errors_New (api_Msg apiErr)))\<rparr>))"
  using assms by (auto simp: HTTP_request_def Let_def split: sum.splits)

lemma HTTP_request_200:
  assumes "url_Parse w (Addr h) = Inr u" and "Scheme u = ''http'' \<or> Scheme u = ''https''"
    and "\<forall>url vals. PostForm w url vals = Inr resp"
    and "Body resp = Inr body" and "StatusCode resp = 200"
    and "Unmarshal_Response w body = Inr r"
  shows "fst (HTTP_request w h requestor verb params) = Inr r"
  using assms(3-6) by (simp add: HTTP_request_answered [OF assms(1,2) _ assms(4)])

lemma HTTP_request_not_200:
  assumes "url_Parse w (Addr h) = Inr u" and "Scheme u = ''http'' \<or> Scheme u = ''https''"
    and "\<forall>url vals. PostForm w url vals = Inr resp"
    and "Body resp = Inr body" and "StatusCode resp \<noteq> 200"
    and "Unmarshal_APIError w body = Inr apiErr"
  shows "fst (HTTP_request w h requestor verb params) =
           Inr \<lparr>resp_ServerID = '''', resp_Type = '''', resp_Data = '''',
                resp_Error = Some (xjson_NewError (errors_New (api_Msg apiErr)))\<rparr>"
  using assms(3-6) by (simp add: HTTP_request_answered [OF assms(1,2) _ assms(4)])

lemma verbs_of_request:
  "fst (HTTP_request w h rq ''version'' Map.empty) = Inr r \<Longrightarrow> resp_Data r = [] \<Longrightarrow>
     fst (HTTP_Version w um z h rq) = Inr \<lparr>ServerID = resp_ServerID r, Data = z, Err = resp_Error r\<rparr>"
  "fst (HTTP_request w h rq ''start'' (Values_Add Map.empty ''jobDesc'' jd)) = Inr r \<Longrightarrow> resp_Data r = [] \<Longrightarrow>
     fst (HTTP_Start w um z h rq jd) = Inr \<lparr>ServerID = resp_ServerID r, Data = z, Err = resp_Error r\<rparr>"
  "fst (HTTP_request w h rq ''stop'' (Values_Add Map.empty ''jobID'' (strconv_Itoa w (sint jobID)))) = Inr r \<Longrightarrow> resp_Data r = [] \<Longrightarrow>
     fst (HTTP_Stop w um z h rq jobID) = Inr \<lparr>ServerID = resp_ServerID r, Data = z, Err = resp_Error r\<rparr>"
  "fst (HTTP_request w h rq ''status'' (Values_Add Map.empty ''jobID'' (strconv_Itoa w (sint jobID)))) = Inr r \<Longrightarrow> resp_Data r = [] \<Longrightarrow>
     fst (HTTP_Status w um z h rq jobID) = Inr \<lparr>ServerID = resp_ServerID r, Data = z, Err = resp_Error r\<rparr>"
  "fst (HTTP_request w h rq ''retry'' (Values_Add Map.empty ''jobID'' (strconv_Itoa w (sint jobID)))) = Inr r \<Longrightarrow> resp_Data r = [] \<Longrightarrow>
     fst (HTTP_Retry w um z h rq jobID) = Inr \<lparr>ServerID = resp_ServerID r, Data = z, Err = resp_Error r\<rparr>"
  "fst (HTTP_request w h rq ''list'' (List_params w states tags)) = Inr r \<Longrightarrow> resp_Data r = [] \<Longrightarrow>
     fst (HTTP_List w um z h rq states tags) = Inr \<lparr>ServerID = resp_ServerID r, Data = z, Err = resp_Error r\<rparr>"
  by (auto simp: HTTP_Version_def HTTP_Start_def HTTP_Stop_def HTTP_Status_def HTTP_Retry_def
        HTTP_List_def split: prod.splits sum.splits)

lemma verbs_of_request_error:
  "HTTP_request w h rq ''version'' Map.empty = (Inl e, t) \<Longrightarrow>
     HTTP_Version w um z h rq = (Inl e, t)"
  "HTTP_request w h rq ''start'' (Values_Add Map.empty ''jobDesc'' jd) = (Inl e, t) \<Longrightarrow>
     HTTP_Start w um z h rq jd = (Inl e, t)"
  "HTTP_request w h rq ''stop'' (Values_Add Map.empty ''jobID'' (strconv_Itoa w (sint jobID))) = (Inl e, t) \<Longrightarrow>
     HTTP_Stop w um z h rq jobID = (Inl e, t)"
  "HTTP_request w h rq ''status'' (Values_Add Map.empty ''jobID'' (strconv_Itoa w (sint jobID))) = (Inl e, t) \<Longrightarrow>
     HTTP_Status w um z h rq jobID = (Inl e, t)"
  "HTTP_request w h rq ''retry'' (Values_Add Map.empty ''jobID'' (strconv_Itoa w (sint jobID))) = (Inl e, t) \<Longrightarrow>
     HTTP_Retry w um z h rq jobID = (Inl e, t)"
  "HTTP_request w h rq ''list'' (List_params w states tags) = (Inl e, t) \<Longrightarrow>
     HTTP_List w um z h rq states tags = (Inl e, t)"
  by (simp_all add: HTTP_Version_def HTTP_Start_def HTTP_Stop_def HTTP_Status_def HTTP_Retry_def
        HTTP_List_def)

text \<open>
  C6. When the configured address parses to a URL without a scheme, or with a scheme other
  than \<^verbatim>\<open>http\<close> and \<^verbatim>\<open>https\<close>, every verb fails with the scheme error ("server URL
  scheme not specified", or "unsupported URL scheme '...', please specify either http or
  https") and its trace is empty: nothing was logged and no POST was attempted.
\<close>

theorem verbs_reject_missing_or_unsupported_scheme:
  assumes "url_Parse w (Addr h) = Inr u" and "Scheme u \<noteq> ''http''" and "Scheme u \<noteq> ''https''"
  shows "HTTP_Version w umV zV h rq = (Inl (scheme_error u), [])
       \<and> HTTP_Start w umS zS h rq jobDescriptor = (Inl (scheme_error u), [])
       \<and> HTTP_Stop w umP zP h rq jobID = (Inl (scheme_error u), [])
       \<and> HTTP_Status w umT zT h rq jobID = (Inl (scheme_error u), [])
       \<and> HTTP_Retry w umR zR h rq jobID = (Inl (scheme_error u), [])
       \<and> HTTP_List w umL zL h rq states tags = (Inl (scheme_error u), [])
       \<and> posts (snd (HTTP_Version w umV zV h rq)) = []
       \<and> scheme_error u =
           (if Scheme u = [] then errors_New ''server URL scheme not specified''
            else errors_New (''unsupported URL scheme '' @ [CHR 0x27] @ Scheme u @ [CHR 0x27]
                             @ '', please specify either http or https''))"
  by (simp add: verbs_of_request_error HTTP_request_scheme [OF assms] scheme_error_def)

theorem verbs_reject_missing_or_unsupported_scheme_witness:
  "HTTP_Status (example_http_world no_data_response) no_decoder 0 \<lparr>Addr = ''example.com''\<rparr> ''tester'' 7
     = (Inl (errors_New ''server URL scheme not specified''), [])
   \<and> HTTP_List (example_http_world no_data_response) no_decoder 0 \<lparr>Addr = ''ftp://example.com''\<rparr>
        ''tester'' [] [''nightly'']
     = (Inl (errors_New ''unsupported URL scheme 'ftp', please specify either http or https''), [])"
proof -
  let ?w = "example_http_world no_data_response"
  have a: "url_Parse ?w (Addr \<lparr>Addr = ''example.com''\<rparr>) = Inr \<lparr>Scheme = '''', Host = '''', Path = ''example.com''\<rparr>"
    by (simp add: http_example_defs)
  have b: "url_Parse ?w (Addr \<lparr>Addr = ''ftp://example.com''\<rparr>) = Inr \<lparr>Scheme = ''ftp'', Host = ''example.com'', Path = ''''\<rparr>"
    by (simp add: http_example_defs)
  have 1: "HTTP_Status ?w no_decoder 0 \<lparr>Addr = ''example.com''\<rparr> ''tester'' 7
     = (Inl (errors_New ''server URL scheme not specified''), [])"
    using verbs_reject_missing_or_unsupported_scheme [OF a, where umV = no_decoder and zV = 0 and umS = no_decoder and zS = 0
        and umP = no_decoder and zP = 0 and umT = no_decoder and zT = 0
        and umR = no_decoder and zR = 0 and umL = no_decoder and zL = 0
        and rq = "''tester''" and jobID = 7 and jobDescriptor = "''{}''"
        and states = "[]" and tags = "[''nightly'']"]
    by simp
  have 2: "HTTP_List ?w no_decoder 0 \<lparr>Addr = ''ftp://example.com''\<rparr> ''tester'' [] [''nightly'']
     = (Inl (errors_New ''unsupported URL scheme 'ftp', please specify either http or https''), [])"
    using verbs_reject_missing_or_unsupported_scheme [OF b, where umV = no_decoder and zV = 0 and umS = no_decoder and zS = 0
        and umP = no_decoder and zP = 0 and umT = no_decoder and zT = 0
        and umR = no_decoder and zR = 0 and umL = no_decoder and zL = 0
        and rq = "''tester''" and jobID = 7 and jobDescriptor = "''{}''"
        and states = "[]" and tags = "[''nightly'']"]
    by simp
  show ?thesis using 1 2 by simp
qed

text \<open>
  C5. When the server answers the request of a verb with a status other than 200 and a
  body that decodes as the error object with the message \<open>msg\<close>, the call returns an
  error wrapping that message, \<^verbatim>\<open>xjson.NewError(errors.New(msg))\<close>, and no typed data:
  the error is the field \<^verbatim>\<open>Err\<close> of the returned response, whose \<^verbatim>\<open>ServerID\<close> is empty
  and whose \<^verbatim>\<open>Data\<close> is the zero value of the verb's data type (the second result of the
  Go method, its \<^verbatim>\<open>error\<close>, is \<^verbatim>\<open>nil\<close>).
\<close>

theorem verbs_non_200_error_object:
  assumes "url_Parse w (Addr h) = Inr u" and "Scheme u = ''http'' \<or> Scheme u = ''https''"
    and "\<forall>url vals. PostForm w url vals = Inr resp"
    and "Body resp = Inr body" and "StatusCode resp \<noteq> 200"
    and "Unmarshal_APIError w body = Inr apiErr"
  shows "fst (HTTP_Version w umV zV h rq) =
           Inr \<lparr>ServerID = [], Data = zV, Err = Some (xjson_NewError (errors_New (api_Msg apiErr)))\<rparr>
       \<and> fst (HTTP_Start w umS zS h rq jobDescriptor) =
           Inr \<lparr>ServerID = [], Data = zS, Err = Some (xjson_NewError (errors_New (api_Msg apiErr)))\<rparr>
       \<and> fst (HTTP_Stop w umP zP h rq jobID) =
           Inr \<lparr>ServerID = [], Data = zP, Err = Some (xjson_NewError (errors_New (api_Msg apiErr)))\<rparr>
       \<and> fst (HTTP_Status w umT zT h rq jobID) =
           Inr \<lparr>ServerID = [], Data = zT, Err = Some (xjson_NewError (errors_New (api_Msg apiErr)))\<rparr>
       \<and> fst (HTTP_Retry w umR zR h rq jobID) =
           Inr \<lparr>ServerID = [], Data = zR, Err = Some (xjson_NewError (errors_New (api_Msg apiErr)))\<rparr>
       \<and> fst (HTTP_List w umL zL h rq states tags) =
           Inr \<lparr>ServerID = [], Data = zL, Err = Some (xjson_NewError (errors_New (api_Msg apiErr)))\<rparr>"
  by (simp add: verbs_of_request [OF HTTP_request_not_200 [OF assms]])

theorem verbs_non_200_error_object_witness:
  "fst (HTTP_Status (example_http_world job_not_found_response) no_decoder 0
          \<lparr>Addr = ''http://contest.example:8080''\<rparr> ''tester'' 7)
     = Inr \<lparr>ServerID = [], Data = 0, Err = Some (xjson_NewError (errors_New ''job not found''))\<rparr>"
proof -
  let ?w = "example_http_world job_not_found_response"
  have a: "url_Parse ?w (Addr \<lparr>Addr = ''http://contest.example:8080''\<rparr>) =
             Inr \<lparr>Scheme = ''http'', Host = ''contest.example:8080'', Path = ''''\<rparr>"
    by (simp add: http_example_defs)
  have s: "Scheme \<lparr>Scheme = ''http'', Host = ''contest.example:8080'', Path = ''''\<rparr> = ''http''
           \<or> Scheme \<lparr>Scheme = ''http'', Host = ''contest.example:8080'', Path = ''''\<rparr> = ''https''"
    by simp
  have p: "\<forall>url vals. PostForm ?w url vals = Inr job_not_found_response"
    by (simp add: example_http_world_def)
  have b: "Body job_not_found_response = Inr job_not_found_body"
    and c: "StatusCode job_not_found_response \<noteq> 200"
    by (simp_all add: job_not_found_response_def)
  have d: "Unmarshal_APIError ?w job_not_found_body = Inr \<lparr>api_Msg = ''job not found''\<rparr>"
    by (simp add: example_http_world_def example_Unmarshal_APIError_def)
  show ?thesis
    using verbs_non_200_error_object [OF a s p b c d, where umV = no_decoder and zV = 0 and umS = no_decoder and zS = 0
        and umP = no_decoder and zP = 0 and umT = no_decoder and zT = 0
        and umR = no_decoder and zR = 0 and umL = no_decoder and zL = 0
        and rq = "''tester''" and jobID = 7 and jobDescriptor = "''{}''"
        and states = "[]" and tags = "[''nightly'']"]
    by simp
qed

text \<open>
  C10. When the server answers with status 200 and the decoded response has an empty
  \<^verbatim>\<open>Data\<close>, each of the six verbs returns the zero value of its data type together with
  the response's \<^verbatim>\<open>ServerID\<close> and \<^verbatim>\<open>Error\<close>, and no decode error: the result does not
  depend on the decoder of the typed data, which is not called.
\<close>

theorem verbs_200_empty_data:
  assumes "url_Parse w (Addr h) = Inr u" and "Scheme u = ''http'' \<or> Scheme u = ''https''"
    and "\<forall>url vals. PostForm w url vals = Inr resp"
    and "Body resp = Inr body" and "StatusCode resp = 200"
    and "Unmarshal_Response w body = Inr r" and "resp_Data r = []"
  shows "fst (HTTP_Version w umV zV h rq) =
           Inr \<lparr>ServerID = resp_ServerID r, Data = zV, Err = resp_Error r\<rparr>
       \<and> fst (HTTP_Start w umS zS h rq jobDescriptor) =
           Inr \<lparr>ServerID = resp_ServerID r, Data = zS, Err = resp_Error r\<rparr>
       \<and> fst (HTTP_Stop w umP zP h rq jobID) =
           Inr \<lparr>ServerID = resp_ServerID r, Data = zP, Err = resp_Error r\<rparr>
       \<and> fst (HTTP_Status w umT zT h rq jobID) =
           Inr \<lparr>ServerID = resp_ServerID r, Data = zT, Err = resp_Error r\<rparr>
       \<and> fst (HTTP_Retry w umR zR h rq jobID) =
           Inr \<lparr>ServerID = resp_ServerID r, Data = zR, Err = resp_Error r\<rparr>
       \<and> fst (HTTP_List w umL zL h rq states tags) =
           Inr \<lparr>ServerID = resp_ServerID r, Data = zL, Err = resp_Error r\<rparr>"
  by (simp add: verbs_of_request [OF HTTP_request_200 [OF assms(1-6)] assms(7)])

theorem verbs_200_empty_data_witness:
  "fst (HTTP_Version (example_http_world no_data_response) no_decoder 0
          \<lparr>Addr = ''http://contest.example:8080''\<rparr> ''tester'')
     = Inr \<lparr>ServerID = ''srv1'', Data = 0, Err = None\<rparr>
   \<and> fst (HTTP_Retry (example_http_world no_data_response) no_decoder 0
          \<lparr>Addr = ''http://contest.example:8080''\<rparr> ''tester'' 7)
     = Inr \<lparr>ServerID = ''srv1'', Data = 0, Err = None\<rparr>"
proof -
  let ?w = "example_http_world no_data_response"
  let ?r = "\<lparr>resp_ServerID = ''srv1'', resp_Type = ''version'', resp_Data = '''', resp_Error = None\<rparr>"
  have a: "url_Parse ?w (Addr \<lparr>Addr = ''http://contest.example:8080''\<rparr>) =
             Inr \<lparr>Scheme = ''http'', Host = ''contest.example:8080'', Path = ''''\<rparr>"
    by (simp add: http_example_defs)
  have s: "Scheme \<lparr>Scheme = ''http'', Host = ''contest.example:8080'', Path = ''''\<rparr> = ''http''
           \<or> Scheme \<lparr>Scheme = ''http'', Host = ''contest.example:8080'', Path = ''''\<rparr> = ''https''"
    by simp
  have p: "\<forall>url vals. PostForm ?w url vals = Inr no_data_response"
    by (simp add: example_http_world_def)
  have b: "Body no_data_response = Inr no_data_body"
    and c: "StatusCode no_data_response = 200"
    by (simp_all add: no_data_response_def)
  have d: "Unmarshal_Response ?w no_data_body = Inr ?r"
    by (simp add: example_http_world_def example_Unmarshal_Response_def)
  have e: "resp_Data ?r = []"
    by simp
  show ?thesis
    using verbs_200_empty_data [OF a s p b c d e, where umV = no_decoder and zV = 0 and umS = no_decoder and zS = 0
        and umP = no_decoder and zP = 0 and umT = no_decoder and zT = 0
        and umR = no_decoder and zR = 0 and umL = no_decoder and zL = 0
        and rq = "''tester''" and jobID = 7 and jobDescriptor = "''{}''"
        and states = "[]" and tags = "[''nightly'']"]
    by simp
qed

end
